theory Spec2Isabelle
  imports Complex_Main "HOL-Library.Word"
begin

section \<open>The engine\<close>

text \<open>
  Two built-ins of the language have values that the language leaves to the engine that
  runs the program. \<open>Math.sin\<close> returns an implementation-approximated value; \<open>engine_sin\<close>
  is that value at a finite argument other than zero. \<open>toUpperCase\<close> follows the case
  mappings of the Unicode version the engine supports; \<open>engine_upper\<close> gives the upper-case
  mapping of a code point outside ASCII that is not a surrogate, as the list of the code
  points it is replaced by (\<open>U+00E9\<close> by \<open>U+00C9\<close>, \<open>U+00DF\<close> by \<open>U+0053 U+0053\<close>).
\<close>

record engine =
  engine_sin :: "real \<Rightarrow> real"
  engine_upper :: "nat \<Rightarrow> nat list"

section \<open>Strings\<close>

text \<open>
  A JavaScript string is a sequence of 16-bit code units. \<open>js\<close> gives the string of an
  ASCII literal. \<open>trim\<close> removes ECMAScript's white space and line terminators from both
  ends.
\<close>

type_synonym code_unit = "16 word"

type_synonym jsstring = "code_unit list"

definition cu :: "char \<Rightarrow> code_unit" where
  "cu c = of_char c"

definition js :: "string \<Rightarrow> jsstring" where
  "js s = map cu s"

definition whiteSpace :: "code_unit list" where
  "whiteSpace =
     [0x0009, 0x000A, 0x000B, 0x000C, 0x000D, 0x0020, 0x00A0, 0x1680,
      0x2000, 0x2001, 0x2002, 0x2003, 0x2004, 0x2005, 0x2006, 0x2007, 0x2008, 0x2009, 0x200A,
      0x2028, 0x2029, 0x202F, 0x205F, 0x3000, 0xFEFF]"

definition isWhiteSpace :: "code_unit \<Rightarrow> bool" where
  "isWhiteSpace c = (c \<in> set whiteSpace)"

definition trim :: "jsstring \<Rightarrow> jsstring" where
  "trim s = rev (dropWhile isWhiteSpace (rev (dropWhile isWhiteSpace s)))"

definition isHighSurrogate :: "code_unit \<Rightarrow> bool" where
  "isHighSurrogate u = (0xD800 \<le> u \<and> u \<le> 0xDBFF)"

definition isLowSurrogate :: "code_unit \<Rightarrow> bool" where
  "isLowSurrogate u = (0xDC00 \<le> u \<and> u \<le> 0xDFFF)"

text \<open>
  \<open>toUpperCase\<close> reads the string as code points (a high surrogate followed by a low one
  is one code point, any other code unit is the code point of its own value), replaces
  each code point by its upper-case mapping, and encodes the result in UTF-16. In ASCII
  the mapping takes \<open>a\<close>..\<open>z\<close> to \<open>A\<close>..\<open>Z\<close> and leaves every other character alone; a
  surrogate code point has no case mapping.
\<close>

fun StringToCodePoints :: "jsstring \<Rightarrow> nat list" where
  "StringToCodePoints [] = []"
| "StringToCodePoints [u] = [unat u]"
| "StringToCodePoints (u # v # rest) =
     (if isHighSurrogate u \<and> isLowSurrogate v
      then (0x10000 + (unat u - 0xD800) * 0x400 + (unat v - 0xDC00)) # StringToCodePoints rest
      else unat u # StringToCodePoints (v # rest))"

definition UTF16EncodeCodePoint :: "nat \<Rightarrow> jsstring" where
  "UTF16EncodeCodePoint cp =
     (if cp < 0x10000 then [of_nat cp]
      else [of_nat (0xD800 + (cp - 0x10000) div 0x400),
            of_nat (0xDC00 + (cp - 0x10000) mod 0x400)])"

definition asciiUpper :: "nat \<Rightarrow> nat" where
  "asciiUpper cp = (if 0x61 \<le> cp \<and> cp \<le> 0x7A then cp - 0x20 else cp)"

definition uppercaseMapping :: "engine \<Rightarrow> nat \<Rightarrow> nat list" where
  "uppercaseMapping eng cp =
     (if cp < 0x80 then [asciiUpper cp]
      else if 0xD800 \<le> cp \<and> cp \<le> 0xDFFF then [cp]
      else engine_upper eng cp)"

definition toUpperCase :: "engine \<Rightarrow> jsstring \<Rightarrow> jsstring" where
  "toUpperCase eng s =
     concat (map UTF16EncodeCodePoint (concat (map (uppercaseMapping eng) (StringToCodePoints s))))"

text \<open>
  A string is well formed when it has no lone surrogate: every high surrogate is
  followed by a low one, and every low surrogate follows a high one.
  \<open>encodeURIComponent\<close> throws a \<open>URIError\<close> on a string that is not well formed.
\<close>

fun isWellFormed :: "jsstring \<Rightarrow> bool" where
  "isWellFormed [] = True"
| "isWellFormed [u] = (\<not> isHighSurrogate u \<and> \<not> isLowSurrogate u)"
| "isWellFormed (u # v # rest) =
     (if isHighSurrogate u then isLowSurrogate v \<and> isWellFormed rest
      else \<not> isLowSurrogate u \<and> isWellFormed (v # rest))"

text \<open>\<open>s.split(",")\<close>: the pieces between commas; the empty string has the one piece \<open>""\<close>.\<close>

fun split_comma :: "jsstring \<Rightarrow> jsstring list" where
  "split_comma [] = [[]]"
| "split_comma (c # cs) =
     (if c = cu CHR '','' then [] # split_comma cs
      else (case split_comma cs of [] \<Rightarrow> [[c]] | p # ps \<Rightarrow> (c # p) # ps))"

text \<open>
  \<open>Array.from(new Set(arr))\<close>: a \<open>Set\<close> keeps its members in insertion order and ignores
  the insertion of a member it already has.
\<close>

fun set_add_all :: "'a list \<Rightarrow> 'a list \<Rightarrow> 'a list" where
  "set_add_all seen [] = seen"
| "set_add_all seen (x # xs) =
     set_add_all (if x \<in> set seen then seen else seen @ [x]) xs"

definition array_from_set :: "'a list \<Rightarrow> 'a list" where
  "array_from_set arr = set_add_all [] arr"

section \<open>Numbers\<close>

text \<open>
  A JavaScript number is an IEEE 754 double: a finite value, an infinity or NaN. A finite
  double is given by its real value; the sign of zero is not modelled.
\<close>

datatype jsnum = Fin real | PInf | NInf | NaN

text \<open>
  Rounding to the nearest double, ties to even. A double has 53 significant bits and an
  exponent of at least \<open>-1022\<close>: a real number in the binade \<open>e\<close>, that is with
  \<open>2 powi e \<le> \<bar>x\<bar>\<close> and \<open>\<bar>x\<bar> < 2 powi (e + 1)\<close>, is rounded to the nearest multiple of
  \<open>2 powi (e - 52)\<close>, and a number below the binade \<open>-1022\<close> to the nearest multiple of
  \<open>2 powi (- 1074)\<close>. \<open>rd\<close> is the rounded value, with the exponent unbounded above;
  \<open>toDouble\<close> is the number an operation gives, an infinity when the rounded value has
  left the range of the doubles.
\<close>

definition binade :: "real \<Rightarrow> int" where
  "binade x = max \<lfloor>log 2 \<bar>x\<bar>\<rfloor> (- 1022)"

definition round_half_even :: "real \<Rightarrow> int" where
  "round_half_even y =
     (let f = \<lfloor>y\<rfloor>
      in if y - real_of_int f < 1 / 2 then f
         else if 1 / 2 < y - real_of_int f then f + 1
         else if even f then f else f + 1)"

definition rd :: "real \<Rightarrow> real" where
  "rd x =
     (if x = 0 then 0
      else real_of_int (round_half_even (x / 2 powi (binade x - 52))) * 2 powi (binade x - 52))"

definition toDouble :: "real \<Rightarrow> jsnum" where
  "toDouble x =
     (let v = rd x
      in if 2 ^ 1024 \<le> v then PInf else if v \<le> - (2 ^ 1024) then NInf else Fin v)"

definition isFinite :: "jsnum \<Rightarrow> bool" where
  "isFinite n = (case n of Fin _ \<Rightarrow> True | _ \<Rightarrow> False)"

definition jneg :: "jsnum \<Rightarrow> jsnum" where
  "jneg n = (case n of Fin x \<Rightarrow> Fin (- x) | PInf \<Rightarrow> NInf | NInf \<Rightarrow> PInf | NaN \<Rightarrow> NaN)"

definition digitTable :: "(code_unit \<times> nat) list" where
  "digitTable =
     zip (js ''0123456789abcdef'') [0, 1, 2, 3, 4, 5, 6, 7, 8, 9, 10, 11, 12, 13, 14, 15] @
     zip (js ''ABCDEF'') [10, 11, 12, 13, 14, 15]"

definition digitVal :: "code_unit \<Rightarrow> nat option" where
  "digitVal c = map_of digitTable c"

fun digitsVal :: "nat \<Rightarrow> nat \<Rightarrow> jsstring \<Rightarrow> nat option" where
  "digitsVal b acc [] = Some acc"
| "digitsVal b acc (c # cs) =
     (case digitVal c of
        None \<Rightarrow> None
      | Some d \<Rightarrow> if d < b then digitsVal b (acc * b + d) cs else None)"

definition digits1 :: "nat \<Rightarrow> jsstring \<Rightarrow> nat option" where
  "digits1 b s = (if s = [] then None else digitsVal b 0 s)"

definition signedInteger :: "jsstring \<Rightarrow> int option" where
  "signedInteger s =
     (case s of
        [] \<Rightarrow> None
      | c # cs \<Rightarrow>
          if c = cu CHR ''-'' then map_option (\<lambda>n. - int n) (digits1 10 cs)
          else if c = cu CHR ''+'' then map_option int (digits1 10 cs)
          else map_option int (digits1 10 s))"

definition mantissa :: "jsstring \<Rightarrow> real option" where
  "mantissa m =
     (let ip = takeWhile (\<lambda>c. c \<noteq> cu CHR ''.'') m;
          r = dropWhile (\<lambda>c. c \<noteq> cu CHR ''.'') m
      in case r of
           [] \<Rightarrow> map_option real (digits1 10 ip)
         | _ # fp \<Rightarrow>
             if ip = [] \<and> fp = [] then None
             else (case (digitsVal 10 0 ip, digitsVal 10 0 fp) of
                     (Some a, Some b) \<Rightarrow> Some (real a + real b / 10 ^ length fp)
                   | _ \<Rightarrow> None))"

definition scale10 :: "real \<Rightarrow> int \<Rightarrow> real" where
  "scale10 v k = (if 0 \<le> k then v * 10 ^ nat k else v / 10 ^ nat (- k))"

definition isExpChar :: "code_unit \<Rightarrow> bool" where
  "isExpChar c = (c = cu CHR ''e'' \<or> c = cu CHR ''E'')"

definition unsignedDecimal :: "jsstring \<Rightarrow> real option option" where
  "unsignedDecimal s =
     (if s = js ''Infinity'' then Some None
      else
        let m = takeWhile (\<lambda>c. \<not> isExpChar c) s;
            ex = dropWhile (\<lambda>c. \<not> isExpChar c) s
        in case mantissa m of
             None \<Rightarrow> None
           | Some v \<Rightarrow>
               (case ex of
                  [] \<Rightarrow> Some (Some v)
                | _ # es \<Rightarrow>
                    (case signedInteger es of
                       None \<Rightarrow> None
                     | Some k \<Rightarrow> Some (Some (scale10 v k)))))"

definition nonDecimal :: "jsstring \<Rightarrow> nat option" where
  "nonDecimal s =
     (case s of
        z # x # ds \<Rightarrow>
          if z \<noteq> cu CHR ''0'' then None
          else if x = cu CHR ''x'' \<or> x = cu CHR ''X'' then digits1 16 ds
          else if x = cu CHR ''o'' \<or> x = cu CHR ''O'' then digits1 8 ds
          else if x = cu CHR ''b'' \<or> x = cu CHR ''B'' then digits1 2 ds
          else None
      | _ \<Rightarrow> None)"

definition strDecimal :: "jsstring \<Rightarrow> jsnum" where
  "strDecimal s =
     (let neg = (case s of [] \<Rightarrow> False | c # _ \<Rightarrow> c = cu CHR ''-'');
          body = (case s of [] \<Rightarrow> []
                  | c # cs \<Rightarrow> if c = cu CHR ''-'' \<or> c = cu CHR ''+'' then cs else s)
      in case unsignedDecimal body of
           None \<Rightarrow> NaN
         | Some None \<Rightarrow> if neg then NInf else PInf
         | Some (Some v) \<Rightarrow> toDouble (if neg then - v else v))"

text \<open>
  \<open>Number(str)\<close> on a string: ECMAScript's StringToNumber, the double nearest to the
  mathematical value of the literal. (For a decimal literal of more than 20 significant
  digits the standard also allows an engine the double nearest to the literal cut after
  its 20th digit; the engines round the literal itself.)
\<close>

definition StringToNumber :: "jsstring \<Rightarrow> jsnum" where
  "StringToNumber str =
     (let s = trim str
      in if s = [] then Fin 0
         else (case nonDecimal s of
                 Some n \<Rightarrow> toDouble (real n)
               | None \<Rightarrow> strDecimal s))"

subsection \<open>The numeric normalizers\<close>

text \<open>\<open>.replace(/[,%]/g, "")\<close> and \<open>.replace(/,/g, "")\<close>.\<close>

definition replace_comma_percent :: "jsstring \<Rightarrow> jsstring" where
  "replace_comma_percent s = filter (\<lambda>c. c \<noteq> cu CHR '','' \<and> c \<noteq> cu CHR ''%'') s"

definition replace_comma :: "jsstring \<Rightarrow> jsstring" where
  "replace_comma s = filter (\<lambda>c. c \<noteq> cu CHR '','') s"

text \<open>The client's \<open>num\<close> (the module-level function of the client API file).\<close>

definition num :: "jsstring option \<Rightarrow> jsnum option" where
  "num s =
     (case s of
        None \<Rightarrow> None
      | Some str \<Rightarrow>
          let n = StringToNumber (trim (replace_comma (replace_comma_percent str)))
          in if isFinite n then Some n else None)"

text \<open>The server's \<open>num\<close> (the local function of \<open>alphaVantageQuote\<close>).\<close>

definition num_server :: "jsstring option \<Rightarrow> jsnum option" where
  "num_server x =
     (case x of
        None \<Rightarrow> None
      | Some str \<Rightarrow> Some (StringToNumber (replace_comma (replace_comma_percent str))))"

subsection \<open>Arithmetic on numbers\<close>

text \<open>
  The operators of the source. On finite operands the result is the exact result rounded
  to the nearest double.
\<close>

definition jadd :: "jsnum \<Rightarrow> jsnum \<Rightarrow> jsnum" where
  "jadd a b =
     (case (a, b) of
        (NaN, _) \<Rightarrow> NaN
      | (_, NaN) \<Rightarrow> NaN
      | (Fin x, Fin y) \<Rightarrow> toDouble (x + y)
      | (PInf, NInf) \<Rightarrow> NaN
      | (NInf, PInf) \<Rightarrow> NaN
      | (PInf, _) \<Rightarrow> PInf
      | (NInf, _) \<Rightarrow> NInf
      | (_, PInf) \<Rightarrow> PInf
      | (_, NInf) \<Rightarrow> NInf)"

definition jsub :: "jsnum \<Rightarrow> jsnum \<Rightarrow> jsnum" where
  "jsub a b = jadd a (jneg b)"

text \<open>The sign of a product or quotient; a zero counts as positive (its sign is not modelled).\<close>

definition jpositive :: "jsnum \<Rightarrow> bool" where
  "jpositive a = (case a of Fin x \<Rightarrow> 0 \<le> x | PInf \<Rightarrow> True | _ \<Rightarrow> False)"

definition jmul :: "jsnum \<Rightarrow> jsnum \<Rightarrow> jsnum" where
  "jmul a b =
     (case (a, b) of
        (NaN, _) \<Rightarrow> NaN
      | (_, NaN) \<Rightarrow> NaN
      | (Fin x, Fin y) \<Rightarrow> toDouble (x * y)
      | _ \<Rightarrow> (if a = Fin 0 \<or> b = Fin 0 then NaN
              else if jpositive a = jpositive b then PInf else NInf))"

definition jdiv :: "jsnum \<Rightarrow> jsnum \<Rightarrow> jsnum" where
  "jdiv a b =
     (case (a, b) of
        (NaN, _) \<Rightarrow> NaN
      | (_, NaN) \<Rightarrow> NaN
      | (Fin x, Fin y) \<Rightarrow>
          (if y \<noteq> 0 then toDouble (x / y)
           else if x = 0 then NaN else if 0 < x then PInf else NInf)
      | (Fin x, _) \<Rightarrow> Fin 0
      | (_, Fin y) \<Rightarrow> (if jpositive a = jpositive b then PInf else NInf)
      | _ \<Rightarrow> NaN)"

text \<open>A number is falsy when it is zero or NaN.\<close>

definition truthy_num :: "jsnum \<Rightarrow> bool" where
  "truthy_num a = (case a of Fin x \<Rightarrow> x \<noteq> 0 | NaN \<Rightarrow> False | _ \<Rightarrow> True)"

text \<open>
  \<open>Math.floor\<close>, \<open>Math.round\<close> (a half is rounded towards plus infinity) and \<open>Math.max\<close> are
  exact. \<open>Math.sin\<close> is zero at zero, NaN at an infinity and at NaN, and the engine's
  approximation elsewhere.
\<close>

definition Math_floor :: "jsnum \<Rightarrow> jsnum" where
  "Math_floor a = (case a of Fin x \<Rightarrow> Fin (real_of_int \<lfloor>x\<rfloor>) | _ \<Rightarrow> a)"

definition Math_round :: "jsnum \<Rightarrow> jsnum" where
  "Math_round a = (case a of Fin x \<Rightarrow> Fin (real_of_int \<lfloor>x + 1 / 2\<rfloor>) | _ \<Rightarrow> a)"

definition Math_max :: "jsnum \<Rightarrow> jsnum \<Rightarrow> jsnum" where
  "Math_max a b =
     (case (a, b) of
        (NaN, _) \<Rightarrow> NaN
      | (_, NaN) \<Rightarrow> NaN
      | (Fin x, Fin y) \<Rightarrow> Fin (max x y)
      | (PInf, _) \<Rightarrow> PInf
      | (_, PInf) \<Rightarrow> PInf
      | (NInf, _) \<Rightarrow> b
      | (_, NInf) \<Rightarrow> a)"

definition Math_sin :: "engine \<Rightarrow> jsnum \<Rightarrow> jsnum" where
  "Math_sin eng a =
     (case a of Fin x \<Rightarrow> if x = 0 then Fin 0 else Fin (engine_sin eng x) | _ \<Rightarrow> NaN)"

text \<open>
  \<open>+x.toFixed(2)\<close>: \<open>toFixed\<close> prints the hundredth nearest to the magnitude of the double, a
  half away from zero, and the unary plus reads the digits back as a number; from
  \<open>1e21\<close> on, and for an infinity and NaN, \<open>toFixed\<close> prints the number itself.
\<close>

definition toFixed2 :: "jsnum \<Rightarrow> jsnum" where
  "toFixed2 a =
     (case a of
        Fin x \<Rightarrow>
          if 10 ^ 21 \<le> \<bar>x\<bar> then Fin x
          else toDouble (sgn x * real_of_int \<lfloor>\<bar>x\<bar> * 100 + 1 / 2\<rfloor> / 100)
      | _ \<Rightarrow> a)"

section \<open>Data model\<close>

text \<open>
  \<open>lastUpdated\<close> is an ISO instant: either the clock reading (in milliseconds) at which
  the row was built, or 16:00 UTC of the trading day a provider named.
\<close>

datatype stamp = Instant nat | MarketClose jsstring

record StockData =
  symbol :: jsstring
  price :: jsnum
  change :: jsnum
  changePercent :: jsnum
  marketCap :: "jsnum option"
  volume :: "jsnum option"
  lastUpdated :: stamp

record StockApiResponse =
  stocks :: "StockData list"
  error :: "string option"

section \<open>Mock generators\<close>

record preset =
  preset_price :: jsnum
  preset_cap :: jsnum
  preset_vol :: jsnum

text \<open>
  The table is the same in the server file and in the client file. A decimal literal of
  the source is the double nearest to it.
\<close>

definition MOCK_PRESETS :: "jsstring \<Rightarrow> preset option" where
  "MOCK_PRESETS = map_of
     [(js ''AAPL'', \<lparr>preset_price = toDouble 230.12, preset_cap = Fin 3550000000000,
                     preset_vol = Fin 58000000\<rparr>),
      (js ''MSFT'', \<lparr>preset_price = toDouble 430.34, preset_cap = Fin 3200000000000,
                     preset_vol = Fin 29000000\<rparr>),
      (js ''GOOGL'', \<lparr>preset_price = toDouble 168.77, preset_cap = Fin 2100000000000,
                      preset_vol = Fin 26000000\<rparr>),
      (js ''AMZN'', \<lparr>preset_price = toDouble 178.45, preset_cap = Fin 1850000000000,
                     preset_vol = Fin 41200000\<rparr>),
      (js ''NVDA'', \<lparr>preset_price = toDouble 121.65, preset_cap = Fin 2900000000000,
                     preset_vol = Fin 52400000\<rparr>),
      (js ''TSLA'', \<lparr>preset_price = toDouble 249.02, preset_cap = Fin 770000000000,
                     preset_vol = Fin 95000000\<rparr>),
      (js ''META'', \<lparr>preset_price = toDouble 512.22, preset_cap = Fin 1300000000000,
                     preset_vol = Fin 19000000\<rparr>)]"

definition defaultSymbols :: "jsstring list" where
  "defaultSymbols = map js [''AAPL'', ''MSFT'', ''GOOGL'', ''AMZN'', ''NVDA'']"

text \<open>
  \<open>Math.floor(Date.now() / 60_000)\<close>, the clock reading \<open>now\<close> in milliseconds: the floor
  of the exact quotient, which for every reading in the range of \<open>Date\<close> is the floor of
  the rounded quotient (lemma \<open>minuteBucket_double\<close>).
\<close>

definition minuteBucket :: "nat \<Rightarrow> int" where
  "minuteBucket now = \<lfloor>real now / 60000\<rfloor>"

subsection \<open>Client: \<open>jitter\<close>, \<open>makeMockRow\<close>, \<open>buildMock\<close>\<close>

text \<open>\<open>symbol.charCodeAt(0)\<close> is NaN on the empty string.\<close>

definition charCodeAt0 :: "jsstring \<Rightarrow> jsnum" where
  "charCodeAt0 s = (case s of [] \<Rightarrow> NaN | c # _ \<Rightarrow> Fin (real (unat c)))"

definition jitter :: "engine \<Rightarrow> jsnum \<Rightarrow> nat \<Rightarrow> jsnum" where
  "jitter eng seed now =
     (let t = Fin (real_of_int (minuteBucket now));
          x = jmul (Math_sin eng (jadd (jmul seed (Fin 997)) t)) (Fin 10000)
      in jsub x (Math_floor x))"

text \<open>
  The baseline \<open>b\<close> and the fraction \<open>r\<close> of \<open>makeMockRow\<close>. The index \<open>i\<close> of an array element
  is an integer below \<open>2^32\<close>.
\<close>

definition makeMockRow_b :: "jsstring \<Rightarrow> nat \<Rightarrow> preset" where
  "makeMockRow_b sy i =
     (case MOCK_PRESETS sy of
        Some p \<Rightarrow> p
      | None \<Rightarrow> \<lparr>preset_price = jadd (Fin 100) (jmul (Fin (real (i mod 8))) (Fin 9)),
                 preset_cap = jadd (Fin 100000000000) (jmul (Fin (real i)) (Fin 7000000000)),
                 preset_vol = jadd (Fin 5000000) (jmul (Fin (real i)) (Fin 250000))\<rparr>)"

definition makeMockRow_r :: "engine \<Rightarrow> jsstring \<Rightarrow> nat \<Rightarrow> nat \<Rightarrow> jsnum" where
  "makeMockRow_r eng sy i now = jitter eng (jadd (Fin (real i)) (charCodeAt0 sy)) now"

definition makeMockRow :: "engine \<Rightarrow> jsstring \<Rightarrow> nat \<Rightarrow> nat \<Rightarrow> StockData" where
  "makeMockRow eng sy i now =
     (let b = makeMockRow_b sy i;
          r = makeMockRow_r eng sy i now;
          pct = jsub (jmul r (Fin 6)) (Fin 3);
          price = toFixed2 (jmul (preset_price b) (jadd (Fin 1) (jdiv pct (Fin 100))));
          changePercent = toFixed2 pct;
          change = toFixed2 (jdiv (jmul price changePercent) (Fin 100));
          volume = Math_max (Fin 1)
                     (Math_round (jmul (preset_vol b)
                                    (jadd (toDouble 0.85) (jmul r (toDouble 0.3)))))
      in \<lparr>symbol = sy, price = price, change = change, changePercent = changePercent,
          marketCap = Some (Math_round (preset_cap b)),
          volume = Some volume,
          lastUpdated = Instant now\<rparr>)"

text \<open>
  The normalisation both entry points of the client apply to a symbol list:
  \<open>Array.from(new Set(symbols.map((s) => s.trim().toUpperCase()).filter(Boolean)))\<close>.
\<close>

definition normalizeSymbols :: "engine \<Rightarrow> jsstring list \<Rightarrow> jsstring list" where
  "normalizeSymbols eng symbols =
     array_from_set (filter (\<lambda>s. s \<noteq> []) (map (\<lambda>s. toUpperCase eng (trim s)) symbols))"

text \<open>
  \<open>clock i\<close> is the reading of the clock while the row of index \<open>i\<close> is built.
  \<open>Array.map\<close> hands \<open>makeMockRow\<close> the element and its index.
\<close>

definition buildMock :: "engine \<Rightarrow> (nat \<Rightarrow> nat) \<Rightarrow> jsstring list \<Rightarrow> StockData list" where
  "buildMock eng clock symbols =
     (let uniq = normalizeSymbols eng symbols
      in map (\<lambda>(i, s). makeMockRow eng s i (clock i))
           (enumerate 0 (if uniq \<noteq> [] then uniq else defaultSymbols)))"

subsection \<open>Server: \<open>mockData\<close>\<close>

text \<open>The baseline \<open>base\<close> and the fraction \<open>r\<close> of a row of \<open>mockData\<close>.\<close>

definition mockData_base :: "jsstring \<Rightarrow> nat \<Rightarrow> preset" where
  "mockData_base s i =
     (case MOCK_PRESETS s of
        Some p \<Rightarrow> p
      | None \<Rightarrow> \<lparr>preset_price = jadd (Fin 100) (jmul (Fin (real (i mod 7))) (Fin 7)),
                 preset_cap = Fin 100000000000,
                 preset_vol = jadd (Fin 5000000) (jmul (Fin (real i)) (Fin 150000))\<rparr>)"

definition mockData_r :: "engine \<Rightarrow> nat \<Rightarrow> nat \<Rightarrow> jsnum" where
  "mockData_r eng i now =
     (let t = Fin (real_of_int (minuteBucket now))
      in jadd (jmul (Math_sin eng (jadd (jmul (Fin (real i)) (Fin 997)) t)) (Fin (1 / 2)))
           (Fin (1 / 2)))"

text \<open>The row \<open>mockData\<close> builds for the symbol \<open>s\<close> at index \<open>i\<close>.\<close>

definition mockRow :: "engine \<Rightarrow> jsstring \<Rightarrow> nat \<Rightarrow> nat \<Rightarrow> StockData" where
  "mockRow eng s i now =
     (let base = mockData_base s i;
          r = mockData_r eng i now;
          pct = jsub (jmul r (Fin 6)) (Fin 3);
          price = toFixed2 (jmul (preset_price base) (jadd (Fin 1) (jdiv pct (Fin 100))));
          changePercent = toFixed2 pct;
          change = toFixed2 (jdiv (jmul price changePercent) (Fin 100));
          volume = Math_max (Fin 1)
                     (Math_round (jmul (preset_vol base)
                                    (jadd (toDouble 0.8) (jmul r (toDouble 0.4)))))
      in \<lparr>symbol = s, price = price, change = change, changePercent = changePercent,
          marketCap = Some (Math_round (preset_cap base)),
          volume = Some volume,
          lastUpdated = Instant now\<rparr>)"

definition mockData :: "engine \<Rightarrow> (nat \<Rightarrow> nat) \<Rightarrow> jsstring list \<Rightarrow> StockApiResponse" where
  "mockData eng clock symbols =
     \<lparr>stocks = map (\<lambda>(i, s). mockRow eng s i (clock i)) (enumerate 0 symbols),
      error = Some ''Using mock data (provider unavailable or rate-limited).''\<rparr>"

section \<open>Providers\<close>

text \<open>
  What one HTTP request gives: \<open>fetch\<close> rejects, or the body is not JSON (\<open>json()\<close>
  rejects), or the body is the JSON value \<open>null\<close>, or it is an object, read at the shape
  the source declares for it. A missing field is \<open>None\<close>.
\<close>

datatype 'a fetched = NetworkError | NotJson | JsonNull | Json 'a

datatype exn = FetchRejected | SyntaxError | TypeError | RangeError | URIError

text \<open>\<open>Boolean(x)\<close> on an optional string, also \<open>if (x)\<close> and \<open>!x\<close>.\<close>

definition truthy :: "jsstring option \<Rightarrow> bool" where
  "truthy x = (case x of None \<Rightarrow> False | Some s \<Rightarrow> s \<noteq> [])"

text \<open>
  The Alpha Vantage \<open>GLOBAL_QUOTE\<close> body (\<open>GlobalQuoteResp\<close>). The \<open>Global Quote\<close> object
  is a list of keys with their strings; \<open>Object.keys(g).length === 0\<close> is \<open>g = []\<close>. The
  keys the source reads are ASCII literals.
\<close>

record GlobalQuoteResp =
  GlobalQuote :: "(string \<times> jsstring) list option"
  Note :: "jsstring option"
  Information :: "jsstring option"

text \<open>The Alpha Vantage \<open>OVERVIEW\<close> body, as far as the server reads it.\<close>

record OverviewResp =
  OverviewNote :: "jsstring option"
  MarketCapitalization :: "jsstring option"

text \<open>
  The Finnhub quote and profile bodies, as far as the server reads them. A field is
  \<open>Some n\<close> when \<open>typeof\<close> it is \<open>"number"\<close>.
\<close>

record FinnhubQuoteResp =
  fq_c :: "jsnum option"
  fq_pc :: "jsnum option"
  fq_d :: "jsnum option"
  fq_dp :: "jsnum option"
  fq_v :: "jsnum option"

record FinnhubProfileResp =
  marketCapitalization :: "jsnum option"

text \<open>
  \<open>lastUpdated\<close> of the two Alpha Vantage adapters. \<open>date_ok s\<close> says that \<open>Date.parse(s)\<close>
  is not NaN (what \<open>Date.parse\<close> accepts beyond the ISO format depends on the engine).
  \<open>toISOString\<close> of an invalid date throws a \<open>RangeError\<close>.
\<close>

definition resolveLastUpdated ::
  "(jsstring \<Rightarrow> bool) \<Rightarrow> nat \<Rightarrow> jsstring option \<Rightarrow> exn + stamp" where
  "resolveLastUpdated date_ok now latestDay =
     (case latestDay of
        None \<Rightarrow> Inr (Instant now)
      | Some d \<Rightarrow>
          if d \<noteq> [] \<and> date_ok d
          then (if date_ok (d @ js ''T16:00:00Z'') then Inr (MarketClose d) else Inl RangeError)
          else Inr (Instant now))"

section \<open>Client: \<open>fetchQuote\<close> and \<open>fetchStocks\<close>\<close>

text \<open>
  What a call of the client meets: the engine, the build-time key, the body Alpha
  Vantage sends for a symbol, the dates the engine parses, and the clock readings while
  a quote is fetched and while the mock row of an index is built.
\<close>

record client_env =
  client_engine :: engine
  API_KEY :: "jsstring option"
  av_response :: "jsstring \<Rightarrow> GlobalQuoteResp fetched"
  client_date_ok :: "jsstring \<Rightarrow> bool"
  fetch_clock :: "jsstring \<Rightarrow> nat"
  mock_clock :: "nat \<Rightarrow> nat"

definition rateLimited :: "GlobalQuoteResp \<Rightarrow> bool" where
  "rateLimited obj = (truthy (Note obj) \<or> truthy (Information obj))"

text \<open>
  The body of the \<open>try\<close> block. On \<open>null\<close>, \<open>rateLimited\<close> is false and reading
  \<open>data["Global Quote"]\<close> throws a \<open>TypeError\<close>.
\<close>

definition fetchQuote_try :: "client_env \<Rightarrow> jsstring \<Rightarrow> exn + StockData option" where
  "fetchQuote_try env sy =
     (case av_response env sy of
        NetworkError \<Rightarrow> Inl FetchRejected
      | NotJson \<Rightarrow> Inl SyntaxError
      | JsonNull \<Rightarrow> Inl TypeError
      | Json data \<Rightarrow>
          if rateLimited data then Inr None
          else (case GlobalQuote data of
                  None \<Rightarrow> Inr None
                | Some g \<Rightarrow>
                    if g = [] then Inr None
                    else (case (num (map_of g ''05. price''),
                                num (map_of g ''09. change''),
                                num (map_of g ''10. change percent'')) of
                            (Some p, Some c, Some cp) \<Rightarrow>
                              (case resolveLastUpdated (client_date_ok env) (fetch_clock env sy)
                                      (map_of g ''07. latest trading day'') of
                                 Inl e \<Rightarrow> Inl e
                               | Inr lu \<Rightarrow>
                                   Inr (Some
                                     \<lparr>symbol = (case map_of g ''01. symbol'' of
                                                  None \<Rightarrow> sy
                                                | Some s \<Rightarrow> if s \<noteq> [] then s else sy),
                                      price = p, change = c, changePercent = cp,
                                      marketCap = None,
                                      volume = num (map_of g ''06. volume''),
                                      lastUpdated = lu\<rparr>))
                          | _ \<Rightarrow> Inr None)))"

text \<open>
  \<open>fetchQuote\<close> builds the URL with \<open>encodeURIComponent(symbol)\<close> before it enters the \<open>try\<close>
  block, so the \<open>URIError\<close> of a symbol that is not well formed leaves the function; what
  the \<open>try\<close> block throws is caught: \<open>try { ... } catch { return null; }\<close>.
\<close>

definition fetchQuote :: "client_env \<Rightarrow> jsstring \<Rightarrow> exn + StockData option" where
  "fetchQuote env sy =
     (if \<not> isWellFormed sy then Inl URIError
      else (case fetchQuote_try env sy of Inl _ \<Rightarrow> Inr None | Inr r \<Rightarrow> Inr r))"

text \<open>The loop of \<open>fetchStocks\<close> over the symbols, with \<open>rows\<close> and \<open>failed\<close>.\<close>

fun fetch_loop ::
  "client_env \<Rightarrow> jsstring list \<Rightarrow> StockData list \<Rightarrow> jsstring list
     \<Rightarrow> exn + (StockData list \<times> jsstring list)" where
  "fetch_loop env [] rows failed = Inr (rows, failed)"
| "fetch_loop env (sy # rest) rows failed =
     (case fetchQuote env sy of
        Inl e \<Rightarrow> Inl e
      | Inr None \<Rightarrow> fetch_loop env rest rows (failed @ [sy])
      | Inr (Some row) \<Rightarrow> fetch_loop env rest (rows @ [row]) failed)"

text \<open>\<open>for (const r of [...rows, ...mocks]) merged.set(r.symbol, r)\<close>\<close>

definition merge_rows :: "StockData list \<Rightarrow> (jsstring \<rightharpoonup> StockData)" where
  "merge_rows rs = fold (\<lambda>r m. m(symbol r \<mapsto> r)) rs Map.empty"

definition fetchStocks :: "client_env \<Rightarrow> jsstring list \<Rightarrow> exn + StockApiResponse" where
  "fetchStocks env inputSymbols =
     (let symbols = normalizeSymbols (client_engine env) inputSymbols
      in if \<not> truthy (API_KEY env)
         then Inr \<lparr>stocks = buildMock (client_engine env) (mock_clock env) symbols,
                   error = Some ''No Alpha Vantage key found. Showing mock data.''\<rparr>
         else (case fetch_loop env symbols [] [] of
                 Inl e \<Rightarrow> Inl e
               | Inr (rows, failed) \<Rightarrow>
                   if rows = []
                   then Inr \<lparr>stocks = buildMock (client_engine env) (mock_clock env) symbols,
                             error = Some ''Alpha Vantage daily limit reached or no data returned. Showing mock data.''\<rparr>
                   else if failed \<noteq> []
                   then (let mocks = buildMock (client_engine env) (mock_clock env) failed;
                             merged = merge_rows (rows @ mocks)
                         in Inr \<lparr>stocks = List.map_filter merged symbols,
                                  error = Some ''Some symbols could not be refreshed (likely rate limit). Mock data shown for those entries.''\<rparr>)
                   else Inr \<lparr>stocks = rows, error = None\<rparr>))"

section \<open>Server: the adapters and \<open>handler\<close>\<close>

text \<open>
  What a call of the server meets: the engine, the two keys of its environment, the
  bodies the providers send for a symbol, the dates the engine parses, and the clock
  readings.
\<close>

record server_env =
  server_engine :: engine
  FINN_KEY :: "jsstring option"
  AV_KEY :: "jsstring option"
  finnhub_quote :: "jsstring \<Rightarrow> FinnhubQuoteResp fetched"
  finnhub_profile :: "jsstring \<Rightarrow> FinnhubProfileResp fetched"
  av_global_quote :: "jsstring \<Rightarrow> GlobalQuoteResp fetched"
  av_overview :: "jsstring \<Rightarrow> OverviewResp fetched"
  server_date_ok :: "jsstring \<Rightarrow> bool"
  quote_clock :: "jsstring \<Rightarrow> nat"
  mockData_clock :: "nat \<Rightarrow> nat"

text \<open>\<open>defaultSymbols.join(",")\<close>\<close>

fun join_comma :: "jsstring list \<Rightarrow> jsstring" where
  "join_comma [] = []"
| "join_comma [s] = s"
| "join_comma (s # t # ts) = s @ cu CHR '','' # join_comma (t # ts)"

definition uniqueSymbols :: "engine \<Rightarrow> jsstring option \<Rightarrow> jsstring list" where
  "uniqueSymbols eng syms =
     (let arr = filter (\<lambda>s. s \<noteq> [])
                  (map (\<lambda>s. toUpperCase eng (trim s))
                     (split_comma (case syms of None \<Rightarrow> join_comma defaultSymbols
                                   | Some str \<Rightarrow> str)))
      in array_from_set arr)"

text \<open>
  \<open>finnhubQuote\<close>. The rejection of either \<open>fetch\<close> and of the first \<open>json()\<close> leaves the
  function; the second \<open>json()\<close> has its own \<open>catch\<close>, which gives the empty object.
\<close>

definition finnhubQuote :: "server_env \<Rightarrow> jsstring \<Rightarrow> exn + StockData option" where
  "finnhubQuote env sy =
     (case finnhub_quote env sy of
        NetworkError \<Rightarrow> Inl FetchRejected
      | NotJson \<Rightarrow> Inl SyntaxError
      | JsonNull \<Rightarrow> Inr None
      | Json d \<Rightarrow>
          (case fq_c d of
             None \<Rightarrow> Inr None
           | Some c \<Rightarrow>
               (case finnhub_profile env sy of
                  NetworkError \<Rightarrow> Inl FetchRejected
                | profile \<Rightarrow>
                    let cap = (case profile of
                                 Json p \<Rightarrow> map_option (\<lambda>m. jmul m (Fin 1000000000))
                                             (marketCapitalization p)
                               | _ \<Rightarrow> None);
                        prevClose = (case fq_pc d of Some x \<Rightarrow> x | None \<Rightarrow> Fin 0);
                        chg = (case fq_d d of Some x \<Rightarrow> x | None \<Rightarrow> jsub c prevClose);
                        chgPct = (case fq_dp d of
                                    Some x \<Rightarrow> x
                                  | None \<Rightarrow> if truthy_num prevClose
                                            then jmul (jdiv chg prevClose) (Fin 100)
                                            else Fin 0)
                    in Inr (Some \<lparr>symbol = sy, price = c, change = chg,
                                  changePercent = chgPct, marketCap = cap,
                                  volume = fq_v d,
                                  lastUpdated = Instant (quote_clock env sy)\<rparr>))))"

text \<open>
  \<open>alphaVantageQuote\<close>. On the body \<open>null\<close> both \<open>j?.Note\<close> and \<open>j?.["Global Quote"]\<close> are
  undefined. The overview request has its own \<open>catch\<close>, which gives the empty object.
\<close>

definition overviewCap :: "OverviewResp fetched \<Rightarrow> jsnum option" where
  "overviewCap o_resp =
     (case o_resp of
        Json ov \<Rightarrow> if truthy (OverviewNote ov) then None
                   else num_server (MarketCapitalization ov)
      | _ \<Rightarrow> None)"

definition alphaVantageQuote :: "server_env \<Rightarrow> jsstring \<Rightarrow> exn + StockData option" where
  "alphaVantageQuote env sy =
     (case av_global_quote env sy of
        NetworkError \<Rightarrow> Inl FetchRejected
      | NotJson \<Rightarrow> Inl SyntaxError
      | JsonNull \<Rightarrow> Inr None
      | Json j \<Rightarrow>
          if truthy (Note j) then Inr None
          else (case GlobalQuote j of
                  None \<Rightarrow> Inr None
                | Some g \<Rightarrow>
                    (case (num_server (map_of g ''05. price''),
                           num_server (map_of g ''09. change''),
                           num_server (map_of g ''10. change percent'')) of
                       (Some p, Some c, Some cp) \<Rightarrow>
                         (let cap = overviewCap (av_overview env sy)
                          in case resolveLastUpdated (server_date_ok env) (quote_clock env sy)
                                    (map_of g ''07. latest trading day'') of
                               Inl e \<Rightarrow> Inl e
                             | Inr lu \<Rightarrow>
                                 Inr (Some \<lparr>symbol = sy, price = p, change = c,
                                            changePercent = cp, marketCap = cap,
                                            volume = num_server (map_of g ''06. volume''),
                                            lastUpdated = lu\<rparr>))
                     | _ \<Rightarrow> Inr None)))"

text \<open>\<open>promise.catch(() => null)\<close>\<close>

definition catch_null :: "exn + 'a option \<Rightarrow> exn + 'a option" where
  "catch_null r = (case r of Inl _ \<Rightarrow> Inr None | Inr v \<Rightarrow> Inr v)"

text \<open>The loop of \<open>fromFinnhub\<close> and of \<open>fromAV\<close>: the rows of the symbols that gave one.\<close>

fun collect_rows ::
  "(jsstring \<Rightarrow> exn + StockData option) \<Rightarrow> jsstring list \<Rightarrow> StockData list
     \<Rightarrow> exn + StockData list" where
  "collect_rows quote [] out = Inr out"
| "collect_rows quote (s # rest) out =
     (case catch_null (quote s) of
        Inl e \<Rightarrow> Inl e
      | Inr None \<Rightarrow> collect_rows quote rest out
      | Inr (Some row) \<Rightarrow> collect_rows quote rest (out @ [row]))"

definition fromFinnhub :: "server_env \<Rightarrow> jsstring list \<Rightarrow> exn + StockApiResponse" where
  "fromFinnhub env symbols =
     (case collect_rows (finnhubQuote env) symbols [] of
        Inl e \<Rightarrow> Inl e
      | Inr out \<Rightarrow>
          Inr (if out \<noteq> [] then \<lparr>stocks = out, error = None\<rparr>
               else \<lparr>stocks = [], error = Some ''Finnhub unavailable.''\<rparr>))"

definition fromAV :: "server_env \<Rightarrow> jsstring list \<Rightarrow> exn + StockApiResponse" where
  "fromAV env symbols =
     (case collect_rows (alphaVantageQuote env) symbols [] of
        Inl e \<Rightarrow> Inl e
      | Inr out \<Rightarrow>
          Inr (if out \<noteq> [] then \<lparr>stocks = out, error = None\<rparr>
               else \<lparr>stocks = [], error = Some ''Alpha Vantage unavailable.''\<rparr>))"

text \<open>
  \<open>handler\<close>, from the query to the body it sends with status 200. \<open>query_symbols\<close> is
  \<open>req.query.symbols\<close> when the query passes the schema and has the field, else \<open>None\<close>.
\<close>

definition handler :: "server_env \<Rightarrow> jsstring option \<Rightarrow> exn + StockApiResponse" where
  "handler env query_symbols =
     (let symbols = uniqueSymbols (server_engine env) query_symbols;
          useFinn = truthy (FINN_KEY env);
          useAV = truthy (AV_KEY env);
          orMock = (\<lambda>resp. if stocks resp = []
                           then mockData (server_engine env) (mockData_clock env) symbols
                           else resp)
      in if useFinn
         then (case fromFinnhub env symbols of
                 Inl e \<Rightarrow> Inl e
               | Inr resp \<Rightarrow>
                   if stocks resp = [] \<and> useAV
                   then (case fromAV env symbols of
                           Inl e \<Rightarrow> Inl e
                         | Inr resp' \<Rightarrow> Inr (orMock resp'))
                   else Inr (orMock resp))
         else if useAV
         then (case fromAV env symbols of
                 Inl e \<Rightarrow> Inl e
               | Inr resp \<Rightarrow> Inr (orMock resp))
         else Inr (mockData (server_engine env) (mockData_clock env) symbols))"

section \<open>Auxiliary definitions\<close>

text \<open>
  What \<open>fetchQuote\<close> resolves to on a well-formed symbol, and what
  \<open>quote(s).catch(() => null)\<close> resolves to on the server: the row, or \<open>None\<close> for \<open>null\<close>.
\<close>

definition client_row :: "client_env \<Rightarrow> jsstring \<Rightarrow> StockData option" where
  "client_row env sy = (case fetchQuote_try env sy of Inl _ \<Rightarrow> None | Inr r \<Rightarrow> r)"

definition caught_row ::
  "(jsstring \<Rightarrow> exn + StockData option) \<Rightarrow> jsstring \<Rightarrow> StockData option" where
  "caught_row quote s = (case quote s of Inr (Some row) \<Rightarrow> Some row | _ \<Rightarrow> None)"

text \<open>
  A symbol list is stable when normalising any of its symbols again leaves that symbol
  unchanged, and ASCII when all its code units are below \<open>0x80\<close>.
\<close>

definition stable_symbols :: "engine \<Rightarrow> jsstring list \<Rightarrow> bool" where
  "stable_symbols eng ys = list_all (\<lambda>s. toUpperCase eng (trim s) = s) ys"

definition isAscii :: "jsstring \<Rightarrow> bool" where
  "isAscii s = list_all (\<lambda>u. u < 0x80) s"

text \<open>On an ASCII string \<open>toUpperCase\<close> maps each code unit by \<open>asciiUpperUnit\<close>.\<close>

definition asciiUpperUnit :: "code_unit \<Rightarrow> code_unit" where
  "asciiUpperUnit u = of_nat (asciiUpper (unat u))"

text \<open>
  The specification's derivation of a mock row from a baseline \<open>b\<close> and a fraction \<open>r\<close>, in
  the arithmetic of the language: the percent change \<open>r * 6 - 3\<close> lies in \<open>[-3, 3]\<close>; price,
  percent change and change are rounded to two decimals, the change being price times
  percent change over 100; the volume is the baseline volume scaled by \<open>lo + r * width\<close>,
  rounded, at least 1. The specification has \<open>lo = 0.8\<close> and \<open>width = 0.4\<close>.
\<close>

definition between :: "real \<Rightarrow> real \<Rightarrow> jsnum \<Rightarrow> bool" where
  "between lo hi a = (case a of Fin x \<Rightarrow> lo \<le> x \<and> x \<le> hi | _ \<Rightarrow> False)"

definition spec_mock_row :: "jsnum \<Rightarrow> jsnum \<Rightarrow> preset \<Rightarrow> jsnum \<Rightarrow> StockData \<Rightarrow> bool" where
  "spec_mock_row lo width b r row =
     (let pct = jsub (jmul r (Fin 6)) (Fin 3)
      in between (- 3) 3 pct \<and>
         price row = toFixed2 (jmul (preset_price b) (jadd (Fin 1) (jdiv pct (Fin 100)))) \<and>
         changePercent row = toFixed2 pct \<and>
         change row = toFixed2 (jdiv (jmul (price row) (changePercent row)) (Fin 100)) \<and>
         volume row =
           Some (Math_max (Fin 1) (Math_round (jmul (preset_vol b) (jadd lo (jmul r width))))))"

subsection \<open>Example environments\<close>

text \<open>
  An engine for the examples: its sine is the correctly rounded one, and it has no case
  mapping outside ASCII. The symbols of the examples are ASCII.
\<close>

definition example_engine :: engine where
  "example_engine = \<lparr>engine_sin = (\<lambda>x. rd (sin x)), engine_upper = (\<lambda>cp. [cp])\<rparr>"

text \<open>Alpha Vantage bodies: a quote that names \<open>sy\<close> as its symbol, and a rate-limit note.\<close>

definition quote_body :: "jsstring \<Rightarrow> jsstring \<Rightarrow> GlobalQuoteResp fetched" where
  "quote_body sy p =
     Json \<lparr>GlobalQuote = Some [(''01. symbol'', sy), (''05. price'', p),
                               (''09. change'', js ''1.50''),
                               (''10. change percent'', js ''2.5%'')],
           Note = None, Information = None\<rparr>"

definition limit_body :: "GlobalQuoteResp fetched" where
  "limit_body =
     Json \<lparr>GlobalQuote = None, Note = Some (js ''API call frequency exceeded''),
           Information = None\<rparr>"

text \<open>A client on the engine \<open>eng\<close> with a key, whose provider answers as \<open>av\<close> says.\<close>

definition client_with ::
  "engine \<Rightarrow> (jsstring \<Rightarrow> GlobalQuoteResp fetched) \<Rightarrow> client_env" where
  "client_with eng av =
     \<lparr>client_engine = eng, API_KEY = Some (js ''demo''), av_response = av,
      client_date_ok = (\<lambda>_. False), fetch_clock = (\<lambda>_. 0), mock_clock = (\<lambda>_. 0)\<rparr>"

text \<open>The provider has \<open>AAPL\<close> and is rate-limited on every other symbol.\<close>

definition aapl_only :: "jsstring \<Rightarrow> GlobalQuoteResp fetched" where
  "aapl_only s =
     (if s = js ''AAPL'' then quote_body (js ''AAPL'') (js ''1,234.5'') else limit_body)"

text \<open>The provider answers \<open>AAPL\<close> under the name \<open>MSFT\<close>, and is rate-limited otherwise.\<close>

definition aapl_renamed :: "jsstring \<Rightarrow> GlobalQuoteResp fetched" where
  "aapl_renamed s =
     (if s = js ''AAPL'' then quote_body (js ''MSFT'') (js ''1,234.5'') else limit_body)"

text \<open>The provider answers \<open>AAPL\<close> under the name \<open>MSFT\<close> and \<open>MSFT\<close> under the name \<open>AAPL\<close>.\<close>

definition names_swapped :: "jsstring \<Rightarrow> GlobalQuoteResp fetched" where
  "names_swapped s =
     (if s = js ''AAPL'' then quote_body (js ''MSFT'') (js ''1,234.5'')
      else if s = js ''MSFT'' then quote_body (js ''AAPL'') (js ''430.25'')
      else limit_body)"

text \<open>
  A server with a Finnhub key only; Finnhub has a quote for \<open>AAPL\<close> and its requests for
  every other symbol fail.
\<close>

definition finnhub_aapl_only :: server_env where
  "finnhub_aapl_only =
     \<lparr>server_engine = example_engine, FINN_KEY = Some (js ''demo''), AV_KEY = None,
      finnhub_quote = (\<lambda>s. if s = js ''AAPL''
                            then Json \<lparr>fq_c = Some (Fin 230), fq_pc = Some (Fin 229),
                                       fq_d = Some (Fin 1), fq_dp = Some (Fin 0.5),
                                       fq_v = None\<rparr>
                            else NetworkError),
      finnhub_profile = (\<lambda>_. NotJson),
      av_global_quote = (\<lambda>_. NetworkError),
      av_overview = (\<lambda>_. NetworkError),
      server_date_ok = (\<lambda>_. False),
      quote_clock = (\<lambda>_. 0),
      mockData_clock = (\<lambda>_. 0)\<rparr>"

text \<open>
  A server with an Alpha Vantage key only, whose provider sends the text \<open>abc\<close> as the
  price of every symbol.
\<close>

definition av_price_abc :: server_env where
  "av_price_abc =
     \<lparr>server_engine = example_engine, FINN_KEY = None, AV_KEY = Some (js ''demo''),
      finnhub_quote = (\<lambda>_. NetworkError),
      finnhub_profile = (\<lambda>_. NetworkError),
      av_global_quote = (\<lambda>s. quote_body s (js ''abc'')),
      av_overview = (\<lambda>_. NetworkError),
      server_date_ok = (\<lambda>_. False),
      quote_clock = (\<lambda>_. 0),
      mockData_clock = (\<lambda>_. 0)\<rparr>"

section \<open>Lemmas\<close>

subsection \<open>Symbol normalisation\<close>

lemma set_add_all_distinct_app:
  "distinct (seen @ xs) \<Longrightarrow> set_add_all seen xs = seen @ xs"
  by (induction xs arbitrary: seen) auto

lemma set_add_all_distinct: "distinct seen \<Longrightarrow> distinct (set_add_all seen xs)"
  by (induction xs arbitrary: seen) auto

lemma set_set_add_all: "set (set_add_all seen xs) = set seen \<union> set xs"
  by (induction xs arbitrary: seen) auto

lemma array_from_set_distinct: "distinct (array_from_set xs)"
  by (simp add: array_from_set_def set_add_all_distinct)

lemma set_array_from_set: "set (array_from_set xs) = set xs"
  by (simp add: array_from_set_def set_set_add_all)

lemma array_from_set_id: "distinct xs \<Longrightarrow> array_from_set xs = xs"
  by (simp add: array_from_set_def set_add_all_distinct_app)

lemma normalizeSymbols_distinct: "distinct (normalizeSymbols eng xs)"
  by (simp add: normalizeSymbols_def array_from_set_distinct)

lemma normalizeSymbols_nonempty: "[] \<notin> set (normalizeSymbols eng xs)"
  by (simp add: normalizeSymbols_def set_array_from_set)

lemma set_normalizeSymbols:
  "set (normalizeSymbols eng xs) = {toUpperCase eng (trim s) | s. s \<in> set xs} - {[]}"
  by (auto simp: normalizeSymbols_def set_array_from_set)

lemma normalize_fix:
  assumes "distinct ys" and "[] \<notin> set ys" and "stable_symbols eng ys"
  shows "normalizeSymbols eng ys = ys"
proof -
  have "map (\<lambda>s. toUpperCase eng (trim s)) ys = ys"
    using assms(3) by (simp add: stable_symbols_def list_all_iff map_idI)
  moreover have "filter (\<lambda>s. s \<noteq> []) ys = ys"
    using assms(2) by (induction ys) auto
  ultimately show ?thesis using assms(1)
    by (simp add: normalizeSymbols_def array_from_set_id)
qed

lemma stable_filter: "stable_symbols eng ys \<Longrightarrow> stable_symbols eng (filter P ys)"
  by (simp add: stable_symbols_def list_all_iff)

lemma normalize_idem:
  assumes "stable_symbols eng (normalizeSymbols eng xs)"
  shows "normalizeSymbols eng (normalizeSymbols eng xs) = normalizeSymbols eng xs"
  using assms by (intro normalize_fix normalizeSymbols_distinct normalizeSymbols_nonempty)

lemma normalize_filter_fix:
  assumes "stable_symbols eng (normalizeSymbols eng xs)"
  shows "normalizeSymbols eng (filter P (normalizeSymbols eng xs)) =
         filter P (normalizeSymbols eng xs)"
proof (rule normalize_fix)
  show "distinct (filter P (normalizeSymbols eng xs))"
    by (simp add: normalizeSymbols_distinct)
  show "[] \<notin> set (filter P (normalizeSymbols eng xs))"
    using normalizeSymbols_nonempty[of eng xs] by simp
  show "stable_symbols eng (filter P (normalizeSymbols eng xs))"
    using assms by (rule stable_filter)
qed

lemma dropWhile_fix: "(xs = [] \<or> \<not> P (hd xs)) \<Longrightarrow> dropWhile P xs = xs"
  by (cases xs) auto

lemma hd_dropWhile_rev:
  assumes "xs = [] \<or> \<not> P (hd xs)"
  shows "rev (dropWhile P (rev xs)) = [] \<or> \<not> P (hd (rev (dropWhile P (rev xs))))"
  using assms
proof (induction xs rule: rev_induct)
  case Nil then show ?case by simp
next
  case (snoc x xs)
  show ?case
  proof (cases "P x")
    case False then show ?thesis using snoc.prems by (cases xs) auto
  next
    case True
    have "xs = [] \<or> \<not> P (hd xs)" using snoc.prems True by (cases xs) auto
    then show ?thesis using snoc.IH True by simp
  qed
qed

lemma trim_idem: "trim (trim s) = trim s"
proof -
  let ?d = "dropWhile isWhiteSpace s"
  have d: "?d = [] \<or> \<not> isWhiteSpace (hd ?d)"
    by (metis hd_dropWhile)
  have t: "trim s = [] \<or> \<not> isWhiteSpace (hd (trim s))"
    using hd_dropWhile_rev[of "dropWhile isWhiteSpace s" isWhiteSpace] d by (simp add: trim_def)
  have "dropWhile isWhiteSpace (trim s) = trim s"
    using t by (rule dropWhile_fix)
  moreover have "dropWhile isWhiteSpace (rev (trim s)) = rev (trim s)"
    by (simp add: trim_def dropWhile_idem)
  ultimately show ?thesis
    by (simp add: trim_def[of "trim s"])
qed

lemma ascii_unat: "(u :: code_unit) < 0x80 \<longleftrightarrow> unat u < 128"
  by (simp add: word_less_nat_alt)

lemma ascii_not_surrogate:
  assumes "(u :: code_unit) < 0x80"
  shows "\<not> isHighSurrogate u" and "\<not> isLowSurrogate u"
  using assms by (simp_all add: isHighSurrogate_def isLowSurrogate_def word_less_nat_alt
      word_le_nat_alt)

lemma StringToCodePoints_ascii: "isAscii s \<Longrightarrow> StringToCodePoints s = map unat s"
  by (induction s rule: StringToCodePoints.induct)
     (simp_all add: isAscii_def ascii_not_surrogate)

lemma asciiUpper_le: "asciiUpper n \<le> n"
  by (simp add: asciiUpper_def)

lemma asciiUpper_idem: "asciiUpper (asciiUpper n) = asciiUpper n"
  unfolding asciiUpper_def by (cases "97 \<le> n \<and> n \<le> 122") auto

lemma unat_asciiUpperUnit: "unat (asciiUpperUnit u) = asciiUpper (unat u)"
proof -
  have "asciiUpper (unat u) \<le> unat u" by (rule asciiUpper_le)
  also have "unat u < 2 ^ 16" using unsigned_less[of u, where 'a = nat] by simp
  finally show ?thesis by (simp add: asciiUpperUnit_def unat_of_nat)
qed

lemma toUpperCase_ascii:
  assumes "isAscii s"
  shows "toUpperCase eng s = map asciiUpperUnit s"
proof -
  have "concat (map UTF16EncodeCodePoint (concat (map (uppercaseMapping eng) (map unat s)))) =
        map asciiUpperUnit s"
    using assms
  proof (induction s)
    case Nil then show ?case by simp
  next
    case (Cons u s)
    have u: "unat u < 128" using Cons.prems by (simp add: isAscii_def ascii_unat)
    have "asciiUpper (unat u) < 0x10000" using asciiUpper_le[of "unat u"] u by simp
    then have "UTF16EncodeCodePoint (asciiUpper (unat u)) = [asciiUpperUnit u]"
      by (simp add: UTF16EncodeCodePoint_def asciiUpperUnit_def)
    moreover have "uppercaseMapping eng (unat u) = [asciiUpper (unat u)]"
      using u by (simp add: uppercaseMapping_def)
    moreover have "isAscii s" using Cons.prems by (simp add: isAscii_def)
    ultimately show ?case using Cons.IH by simp
  qed
  then show ?thesis using assms by (simp add: toUpperCase_def StringToCodePoints_ascii)
qed

lemma asciiUpperUnit_ascii: "u < 0x80 \<Longrightarrow> asciiUpperUnit u < 0x80"
  using asciiUpper_le[of "unat u"] by (simp add: ascii_unat unat_asciiUpperUnit)

lemma asciiUpperUnit_idem: "asciiUpperUnit (asciiUpperUnit u) = asciiUpperUnit u"
  by (simp add: asciiUpperUnit_def[of "asciiUpperUnit u"] unat_asciiUpperUnit asciiUpper_idem)
     (simp add: asciiUpperUnit_def)

lemma whiteSpace_range: "isWhiteSpace c \<Longrightarrow> unat c \<le> 0x20 \<or> 0xA0 \<le> unat c"
  by (auto simp: isWhiteSpace_def whiteSpace_def)

lemma asciiUpperUnit_ws: "isWhiteSpace (asciiUpperUnit u) = isWhiteSpace u"
proof (cases "0x61 \<le> unat u \<and> unat u \<le> 0x7A")
  case True
  then have "unat (asciiUpperUnit u) = unat u - 0x20"
    by (simp add: unat_asciiUpperUnit asciiUpper_def)
  then have "\<not> isWhiteSpace (asciiUpperUnit u)"
    using True whiteSpace_range[of "asciiUpperUnit u"] by auto
  moreover have "\<not> isWhiteSpace u" using True whiteSpace_range[of u] by auto
  ultimately show ?thesis by simp
next
  case False
  then have "asciiUpperUnit u = u" by (auto simp: asciiUpperUnit_def asciiUpper_def)
  then show ?thesis by simp
qed

lemma dropWhile_ws_upper:
  "dropWhile isWhiteSpace (map asciiUpperUnit s) =
   map asciiUpperUnit (dropWhile isWhiteSpace s)"
  by (induction s) (simp_all add: asciiUpperUnit_ws)

lemma trim_map_upper: "trim (map asciiUpperUnit s) = map asciiUpperUnit (trim s)"
  by (simp add: trim_def dropWhile_ws_upper rev_map)

lemma isAscii_trim: "isAscii s \<Longrightarrow> isAscii (trim s)"
proof -
  assume a: "isAscii s"
  have "set (trim s) \<subseteq> set s"
  proof
    fix u assume "u \<in> set (trim s)"
    then have "u \<in> set (dropWhile isWhiteSpace (rev (dropWhile isWhiteSpace s)))"
      by (simp add: trim_def)
    then have "u \<in> set (rev (dropWhile isWhiteSpace s))" by (rule set_dropWhileD)
    then have "u \<in> set (dropWhile isWhiteSpace s)" by simp
    then show "u \<in> set s" by (rule set_dropWhileD)
  qed
  then show ?thesis using a by (auto simp: isAscii_def list_all_iff)
qed

lemma isAscii_map_upper: "isAscii s \<Longrightarrow> isAscii (map asciiUpperUnit s)"
  by (simp add: isAscii_def list_all_iff asciiUpperUnit_ascii)

lemma ascii_stable:
  assumes "list_all isAscii xs"
  shows "stable_symbols eng (normalizeSymbols eng xs)"
proof -
  have "toUpperCase eng (trim t) = t" if "t \<in> set (normalizeSymbols eng xs)" for t
  proof -
    from that obtain s where s: "s \<in> set xs" and t: "t = toUpperCase eng (trim s)"
      by (auto simp: set_normalizeSymbols)
    have a: "isAscii (trim s)" using assms s by (simp add: list_all_iff isAscii_trim)
    then have t': "t = map asciiUpperUnit (trim s)" using t by (simp add: toUpperCase_ascii)
    then have "trim t = t" by (simp add: trim_map_upper trim_idem)
    moreover have "isAscii t" using a t' by (simp add: isAscii_map_upper)
    ultimately have "toUpperCase eng (trim t) = map asciiUpperUnit t"
      by (simp add: toUpperCase_ascii)
    also have "\<dots> = t" unfolding t' by (simp add: asciiUpperUnit_idem)
    finally show ?thesis .
  qed
  then show ?thesis by (simp add: stable_symbols_def list_all_iff)
qed

subsection \<open>Rounding to the nearest double\<close>

lemma two_powr_int: "(2::real) powr real_of_int n = 2 powi n"
  by (rule powr_real_of_int') simp_all

lemma binade_eq:
  assumes "2 powi e \<le> \<bar>x\<bar>" and "\<bar>x\<bar> < 2 powi (e + 1)" and "- 1022 \<le> e"
  shows "binade x = e"
proof -
  have pos: "0 < \<bar>x\<bar>" using assms(1) by (smt (verit) zero_less_power_int)
  have "\<lfloor>log 2 \<bar>x\<bar>\<rfloor> = e"
    using assms(1,2) floor_log_eq_powr_iff[OF pos, of 2 e]
    unfolding two_powr_int by simp
  then show ?thesis using assms(3) by (simp add: binade_def)
qed

lemma round_half_even_of_int: "round_half_even (real_of_int n) = n"
  by (simp add: round_half_even_def)

lemma round_half_even_floor: "\<lfloor>y\<rfloor> \<le> round_half_even y \<and> round_half_even y \<le> \<lfloor>y\<rfloor> + 1"
  by (simp add: round_half_even_def Let_def)

lemma round_half_even_mono:
  assumes "y \<le> z"
  shows "round_half_even y \<le> round_half_even z"
proof (cases "\<lfloor>y\<rfloor> = \<lfloor>z\<rfloor>")
  case True
  then show ?thesis using assms by (simp add: round_half_even_def Let_def)
next
  case False
  then have "\<lfloor>y\<rfloor> + 1 \<le> \<lfloor>z\<rfloor>" using floor_mono[OF assms] by simp
  then show ?thesis
    using round_half_even_floor[of y] round_half_even_floor[of z] by linarith
qed

lemma round_half_even_ge: "real_of_int n \<le> y \<Longrightarrow> n \<le> round_half_even y"
  using round_half_even_mono[of "real_of_int n" y] by (simp add: round_half_even_of_int)

lemma round_half_even_le: "y \<le> real_of_int n \<Longrightarrow> round_half_even y \<le> n"
  using round_half_even_mono[of y "real_of_int n"] by (simp add: round_half_even_of_int)

lemma round_half_even_uminus: "round_half_even (- y) = - round_half_even y"
proof (cases "y \<in> \<int>")
  case True
  then obtain n where "y = real_of_int n" by (auto elim: Ints_cases)
  then have "round_half_even (- y) = round_half_even (real_of_int (- n))" by simp
  then show ?thesis
    unfolding \<open>y = real_of_int n\<close> round_half_even_of_int .
next
  case False
  then have "y \<noteq> real_of_int \<lfloor>y\<rfloor>" by (metis Ints_of_int)
  then have fl: "\<lfloor>- y\<rfloor> = - \<lfloor>y\<rfloor> - 1"
    by (simp add: floor_minus ceiling_altdef)
  show ?thesis
    unfolding round_half_even_def Let_def fl by auto
qed

lemma two_power_powi: "(2::real) ^ n * 2 powi k = 2 powi (k + int n)"
  by (simp add: power_int_add)

lemma powi_53: "(2::real) ^ 53 * 2 powi (b - 52) = 2 powi (b + 1)"
  unfolding two_power_powi by (rule arg_cong[where f = "\<lambda>k. 2 powi k"]) simp

lemma powi_52: "(2::real) ^ 52 * 2 powi (b - 52) = 2 powi b"
  unfolding two_power_powi by (rule arg_cong[where f = "\<lambda>k. 2 powi k"]) simp

lemma binade_uminus: "binade (- x) = binade x"
  by (simp add: binade_def)

lemma rd_uminus: "rd (- x) = - rd x"
  by (simp add: rd_def binade_uminus round_half_even_uminus)

lemma binade_upper:
  assumes "x \<noteq> 0"
  shows "\<bar>x\<bar> < 2 powi (binade x + 1)"
proof -
  have pos: "0 < \<bar>x\<bar>" using assms by simp
  define k where "k = \<lfloor>log 2 \<bar>x\<bar>\<rfloor>"
  have "\<bar>x\<bar> < 2 powi (k + 1)"
    using floor_log_eq_powr_iff[OF pos, of 2 k] unfolding two_powr_int k_def by simp
  also have "\<dots> \<le> 2 powi (binade x + 1)"
    by (rule power_int_increasing) (simp_all add: binade_def k_def)
  finally show ?thesis .
qed

lemma binade_lower:
  assumes "x \<noteq> 0" and "- 1022 < binade x"
  shows "2 powi binade x \<le> \<bar>x\<bar>"
proof -
  have pos: "0 < \<bar>x\<bar>" using assms by simp
  define k where "k = \<lfloor>log 2 \<bar>x\<bar>\<rfloor>"
  have "binade x = k" using assms(2) by (simp add: binade_def k_def max_def split: if_splits)
  moreover have "2 powi k \<le> \<bar>x\<bar>"
    using floor_log_eq_powr_iff[OF pos, of 2 k] unfolding two_powr_int k_def by simp
  ultimately show ?thesis by simp
qed

lemma binade_mono:
  assumes "0 < x" and "x \<le> y"
  shows "binade x \<le> binade y"
proof -
  have "log 2 x \<le> log 2 y" using assms by simp
  then have "\<lfloor>log 2 x\<rfloor> \<le> \<lfloor>log 2 y\<rfloor>" by (rule floor_mono)
  moreover have "\<bar>x\<bar> = x" and "\<bar>y\<bar> = y" using assms by simp_all
  ultimately show ?thesis unfolding binade_def by linarith
qed

lemma rd_nonneg:
  assumes "0 \<le> x"
  shows "0 \<le> rd x"
proof -
  have "0 \<le> x / 2 powi (binade x - 52)" using assms by simp
  then have "0 \<le> round_half_even (x / 2 powi (binade x - 52))"
    using round_half_even_ge[of 0] by simp
  then show ?thesis by (simp add: rd_def)
qed

lemma rd_mono_pos:
  assumes "0 < x" and "x \<le> y"
  shows "rd x \<le> rd y"
proof -
  have ypos: "0 < y" using assms by simp
  have b: "binade x \<le> binade y" by (rule binade_mono[OF assms])
  let ?qx = "(2::real) powi (binade x - 52)"
  let ?qy = "(2::real) powi (binade y - 52)"
  have qx: "0 < ?qx" and qy: "0 < ?qy" by simp_all
  have rx: "rd x = real_of_int (round_half_even (x / ?qx)) * ?qx"
    using assms(1) by (simp add: rd_def)
  have ry: "rd y = real_of_int (round_half_even (y / ?qy)) * ?qy"
    using ypos by (simp add: rd_def)
  show ?thesis
  proof (cases "binade x = binade y")
    case True
    have "x / ?qx \<le> y / ?qx" using assms(2) qx by (simp add: divide_right_mono)
    then have "round_half_even (x / ?qx) \<le> round_half_even (y / ?qx)"
      by (rule round_half_even_mono)
    then show ?thesis unfolding rx ry True[symmetric] using qx
      by (simp add: mult_right_mono)
  next
    case False
    then have lt: "binade x < binade y" using b by simp
    have "x < 2 powi (binade x + 1)" using binade_upper[of x] assms(1) by simp
    also have "\<dots> = 2 ^ 53 * ?qx"
      by (rule powi_53[symmetric])
    finally have "x / ?qx \<le> 2 ^ 53" using qx by (simp add: pos_divide_le_eq)
    then have "round_half_even (x / ?qx) \<le> 2 ^ 53"
      using round_half_even_le[of "x / ?qx" "2 ^ 53"] by simp
    then have "real_of_int (round_half_even (x / ?qx)) \<le> 2 ^ 53"
      by (metis of_int_le_iff of_int_numeral of_int_power)
    then have "rd x \<le> 2 ^ 53 * ?qx" unfolding rx using qx by (simp add: mult_right_mono)
    also have "\<dots> = 2 powi (binade x + 1)"
      by (rule powi_53)
    also have "\<dots> \<le> 2 powi binade y"
      by (rule power_int_increasing) (use lt in simp_all)
    finally have up: "rd x \<le> 2 powi binade y" .
    have "- 1022 < binade y" using lt by (simp add: binade_def max_def split: if_splits)
    then have "2 powi binade y \<le> y" using binade_lower[of y] ypos by simp
    moreover have "2 powi binade y = 2 ^ 52 * ?qy"
      by (rule powi_52[symmetric])
    ultimately have "2 ^ 52 \<le> y / ?qy" using qy by (simp add: pos_le_divide_eq)
    then have "2 ^ 52 \<le> round_half_even (y / ?qy)"
      using round_half_even_ge[of "2 ^ 52" "y / ?qy"] by simp
    then have "2 ^ 52 \<le> real_of_int (round_half_even (y / ?qy))"
      by (metis of_int_le_iff of_int_numeral of_int_power)
    then have "2 ^ 52 * ?qy \<le> rd y" unfolding ry using qy by (simp add: mult_right_mono)
    then have "2 powi binade y \<le> rd y"
      using \<open>2 powi binade y = 2 ^ 52 * ?qy\<close> by simp
    then show ?thesis using up by simp
  qed
qed

lemma rd_mono:
  assumes "x \<le> y"
  shows "rd x \<le> rd y"
proof -
  consider "0 < x" | "x \<le> 0" "0 \<le> y" | "y < 0" using assms by linarith
  then show ?thesis
  proof cases
    case 1
    then show ?thesis using assms by (rule rd_mono_pos)
  next
    case 2
    have "rd x \<le> 0" using rd_nonneg[of "- x"] 2(1) by (simp add: rd_uminus)
    then show ?thesis using rd_nonneg[OF 2(2)] by simp
  next
    case 3
    have "rd (- y) \<le> rd (- x)" using 3 assms by (intro rd_mono_pos) simp_all
    then show ?thesis by (simp add: rd_uminus)
  qed
qed

lemma toDouble_between:
  assumes "a \<le> x" and "x \<le> b" and "rd a = a" and "rd b = b"
    and "- (2 ^ 1024) < a" and "b < 2 ^ 1024"
  shows "\<exists>v. toDouble x = Fin v \<and> a \<le> v \<and> v \<le> b"
proof -
  have "a \<le> rd x" using rd_mono[OF assms(1)] assms(3) by simp
  moreover have "rd x \<le> b" using rd_mono[OF assms(2)] assms(4) by simp
  ultimately show ?thesis using assms(5,6) by (simp add: toDouble_def Let_def)
qed

lemma rd_0: "rd 0 = 0"
  by (simp add: rd_def)

lemma rd_eval:
  assumes "2 powi e \<le> \<bar>x\<bar>" and "\<bar>x\<bar> < 2 powi (e + 1)" and "- 1022 \<le> e"
  shows "rd x = real_of_int (round_half_even (x / 2 powi (e - 52))) * 2 powi (e - 52)"
proof -
  have "x \<noteq> 0" using assms(1) by (smt (verit) zero_less_power_int)
  then show ?thesis using binade_eq[OF assms] by (simp add: rd_def)
qed

lemma rd_of_int:
  assumes "\<bar>n\<bar> \<le> 2 ^ 53"
  shows "rd (real_of_int n) = real_of_int n"
proof (cases "n = 0")
  case True then show ?thesis by (simp add: rd_def)
next
  case False
  define x where "x = real_of_int n"
  define b where "b = binade x"
  have x0: "x \<noteq> 0" using False by (simp add: x_def)
  have "real_of_int \<bar>n\<bar> \<le> real_of_int (2 ^ 53)" using assms by (simp only: of_int_le_iff)
  then have le53: "\<bar>x\<bar> \<le> 2 powi 53" by (simp add: x_def)
  have b53: "b \<le> 53"
  proof (rule ccontr)
    assume "\<not> b \<le> 53"
    then have lt: "53 < b" by simp
    then have "2 powi b \<le> \<bar>x\<bar>" using binade_lower[OF x0] by (simp add: b_def)
    moreover have "(2::real) powi 53 < 2 powi b"
      by (rule power_int_strict_increasing) (use lt in simp_all)
    ultimately show False using le53 by linarith
  qed
  have "\<exists>m. x / 2 powi (b - 52) = real_of_int m"
  proof (cases "b \<le> 52")
    case True
    have "x / 2 powi (b - 52) = x * 2 powi (52 - b)"
      by (simp add: power_int_diff field_simps)
    also have "\<dots> = x * 2 ^ nat (52 - b)" using True by (simp add: power_int_def)
    also have "\<dots> = real_of_int (n * 2 ^ nat (52 - b))" by (simp add: x_def)
    finally show ?thesis by blast
  next
    case False
    then have b: "b = 53" using b53 by simp
    then have "2 powi 53 \<le> \<bar>x\<bar>" using binade_lower[OF x0] by (simp add: b_def)
    then have ax: "\<bar>x\<bar> = 2 powi 53" using le53 by linarith
    have q: "(2::real) powi (b - 52) = 2" by (simp add: b)
    have "(2::real) powi 53 = 2 * real_of_int (2 ^ 52)" by simp
    then have "x = 2 * real_of_int (2 ^ 52) \<or> x = 2 * real_of_int (- (2 ^ 52))"
      using ax by linarith
    then have "x / 2 = real_of_int (2 ^ 52) \<or> x / 2 = real_of_int (- (2 ^ 52))"
      by linarith
    then show ?thesis unfolding q by blast
  qed
  then obtain m where m: "x / 2 powi (b - 52) = real_of_int m" by blast
  have "rd x = real_of_int (round_half_even (x / 2 powi (b - 52))) * 2 powi (b - 52)"
    using x0 by (simp add: rd_def b_def)
  also have "\<dots> = real_of_int m * 2 powi (b - 52)"
    unfolding m round_half_even_of_int ..
  also have "\<dots> = x / 2 powi (b - 52) * 2 powi (b - 52)" by (simp only: m)
  also have "\<dots> = x" by simp
  finally show ?thesis by (simp add: x_def)
qed

lemma rd_of_nat:
  assumes "n \<le> 2 ^ 53"
  shows "rd (real n) = real n"
proof -
  have "int n \<le> int (2 ^ 53)" using assms by (simp only: of_nat_le_iff)
  then have "\<bar>int n\<bar> \<le> 2 ^ 53" by simp
  then show ?thesis using rd_of_int[of "int n"] by simp
qed

lemma rd_half: "rd (1 / 2) = 1 / 2" and rd_mhalf: "rd (- (1 / 2)) = - (1 / 2)"
  by (simp_all add: rd_eval[where e = "- 1"] round_half_even_def)

lemma toDouble_of_nat:
  assumes "n \<le> 2 ^ 53"
  shows "toDouble (real n) = Fin (real n)"
proof -
  have "real n \<le> real (2 ^ 53)" using assms by (simp only: of_nat_le_iff)
  moreover have "real (2 ^ 53) < 2 ^ 1024" by simp
  ultimately have "real n < 2 ^ 1024" by linarith
  moreover have "- (2 ^ 1024) < real n"
  proof -
    have "- (2 ^ 1024) < (0::real)" by simp
    also have "0 \<le> real n" by simp
    finally show ?thesis .
  qed
  ultimately show ?thesis using assms by (simp add: toDouble_def Let_def rd_of_nat)
qed

subsection \<open>The client orchestrator\<close>

lemma fetchQuote_eq:
  "fetchQuote env sy = (if isWellFormed sy then Inr (client_row env sy) else Inl URIError)"
  by (simp add: fetchQuote_def client_row_def split: sum.splits)

lemma fetchQuote_total: "isWellFormed sy \<Longrightarrow> fetchQuote env sy = Inr (client_row env sy)"
  by (simp add: fetchQuote_eq)

lemma fetch_loop_eq:
  "fetch_loop env syms rows failed =
     (if list_all isWellFormed syms
      then Inr (rows @ List.map_filter (client_row env) syms,
                failed @ filter (\<lambda>s. client_row env s = None) syms)
      else Inl URIError)"
proof (induction syms arbitrary: rows failed)
  case Nil
  show ?case by (simp add: map_filter_simps)
next
  case (Cons s syms)
  show ?case
    by (cases "client_row env s") (simp_all add: fetchQuote_eq Cons.IH map_filter_simps)
qed

lemma symbol_makeMockRow: "symbol (makeMockRow eng sy i now) = sy"
  by (simp add: makeMockRow_def Let_def)

lemma marketCap_makeMockRow: "marketCap (makeMockRow eng sy i now) \<noteq> None"
  by (simp add: makeMockRow_def Let_def)

lemma map_symbol_mock_rows:
  "map symbol (map (\<lambda>(i, s). makeMockRow eng s i (clk i)) (enumerate n xs)) = xs"
  by (induction xs arbitrary: n) (simp_all add: symbol_makeMockRow)

lemma map_symbol_buildMock:
  "map symbol (buildMock eng clk ys) = (if normalizeSymbols eng ys \<noteq> [] then normalizeSymbols eng ys else defaultSymbols)"
  unfolding buildMock_def Let_def by (rule map_symbol_mock_rows)

lemma buildMock_rows:
  "row \<in> set (buildMock eng clk ys) \<Longrightarrow> \<exists>s i. row = makeMockRow eng s i (clk i)"
  by (auto simp: buildMock_def Let_def)

lemma fold_upd_Some:
  "fold (\<lambda>r m. m(symbol r \<mapsto> r)) rs m0 k = Some r \<Longrightarrow>
     (r \<in> set rs \<and> symbol r = k) \<or> m0 k = Some r"
  by (induction rs arbitrary: m0) (fastforce split: if_splits)+

lemma fold_upd_dom:
  "dom (fold (\<lambda>r m. m(symbol r \<mapsto> r)) rs m0) = symbol ` set rs \<union> dom m0"
  by (induction rs arbitrary: m0) auto

lemma merge_rows_Some: "merge_rows rs k = Some r \<Longrightarrow> r \<in> set rs \<and> symbol r = k"
  using fold_upd_Some[of rs Map.empty k r] by (simp add: merge_rows_def)

lemma merge_rows_dom: "dom (merge_rows rs) = symbol ` set rs"
  by (simp add: merge_rows_def fold_upd_dom)

lemma map_filter_all_Some:
  "list_all (\<lambda>s. \<exists>r. m s = Some r \<and> symbol r = s) ys \<Longrightarrow>
     map symbol (List.map_filter m ys) = ys"
  by (induction ys) (auto simp: map_filter_simps)

lemma set_map_filter: "set (List.map_filter f xs) = {y. \<exists>x \<in> set xs. f x = Some y}"
  by (induction xs) (auto simp: map_filter_simps split: option.splits)

lemma map_filter_Nil_iff: "List.map_filter f xs = [] \<longleftrightarrow> list_all (\<lambda>x. f x = None) xs"
  by (induction xs) (auto simp: map_filter_simps split: option.splits)

lemma filter_None_Nil_iff:
  "filter (\<lambda>s. f s = None) xs = [] \<longleftrightarrow> list_all (\<lambda>x. f x \<noteq> None) xs"
  by (induction xs) auto

text \<open>fetchStocks, unfolded once and for all\<close>

lemma fetchStocks_eq:
  "fetchStocks env inputSymbols =
     (let symbols = normalizeSymbols (client_engine env) inputSymbols;
          rows = List.map_filter (client_row env) symbols;
          failed = filter (\<lambda>s. client_row env s = None) symbols
      in if \<not> truthy (API_KEY env)
         then Inr \<lparr>stocks = buildMock (client_engine env) (mock_clock env) symbols,
                   error = Some ''No Alpha Vantage key found. Showing mock data.''\<rparr>
         else if \<not> list_all isWellFormed symbols then Inl URIError
         else if rows = []
         then Inr \<lparr>stocks = buildMock (client_engine env) (mock_clock env) symbols,
                   error = Some ''Alpha Vantage daily limit reached or no data returned. Showing mock data.''\<rparr>
         else if failed \<noteq> []
         then Inr \<lparr>stocks = List.map_filter (merge_rows (rows @ buildMock (client_engine env) (mock_clock env) failed)) symbols,
                   error = Some ''Some symbols could not be refreshed (likely rate limit). Mock data shown for those entries.''\<rparr>
         else Inr \<lparr>stocks = rows, error = None\<rparr>)"
  by (simp add: fetchStocks_def fetch_loop_eq Let_def)

lemma fetchStocks_returns_iff:
  "(\<exists>resp. fetchStocks env inputSymbols = Inr resp) \<longleftrightarrow>
     \<not> truthy (API_KEY env) \<or> list_all isWellFormed (normalizeSymbols (client_engine env) inputSymbols)"
  by (simp add: fetchStocks_eq Let_def)

lemma fetchQuote_try_marketCap:
  "fetchQuote_try env sy = Inr (Some row) \<Longrightarrow> marketCap row = None"
  unfolding fetchQuote_try_def
  by (auto split: fetched.splits if_splits option.splits sum.splits)

lemma client_row_marketCap: "client_row env sy = Some row \<Longrightarrow> marketCap row = None"
  by (auto simp: client_row_def fetchQuote_try_marketCap split: sum.splits)

lemma fetchStocks_cases:
  assumes "fetchStocks env inputSymbols = Inr resp"
  obtains
    (nokey) "\<not> truthy (API_KEY env)"
           "stocks resp = buildMock (client_engine env) (mock_clock env) (normalizeSymbols (client_engine env) inputSymbols)"
           "error resp \<noteq> None"
  | (norows) "truthy (API_KEY env)"
           "list_all isWellFormed (normalizeSymbols (client_engine env) inputSymbols)"
           "List.map_filter (client_row env) (normalizeSymbols (client_engine env) inputSymbols) = []"
           "stocks resp = buildMock (client_engine env) (mock_clock env) (normalizeSymbols (client_engine env) inputSymbols)"
           "error resp \<noteq> None"
  | (part) "truthy (API_KEY env)"
           "list_all isWellFormed (normalizeSymbols (client_engine env) inputSymbols)"
           "List.map_filter (client_row env) (normalizeSymbols (client_engine env) inputSymbols) \<noteq> []"
           "filter (\<lambda>s. client_row env s = None) (normalizeSymbols (client_engine env) inputSymbols) \<noteq> []"
           "stocks resp =
              List.map_filter
                (merge_rows (List.map_filter (client_row env) (normalizeSymbols (client_engine env) inputSymbols) @
                   buildMock (client_engine env) (mock_clock env)
                     (filter (\<lambda>s. client_row env s = None) (normalizeSymbols (client_engine env) inputSymbols))))
                (normalizeSymbols (client_engine env) inputSymbols)"
           "error resp \<noteq> None"
  | (good) "truthy (API_KEY env)"
           "list_all isWellFormed (normalizeSymbols (client_engine env) inputSymbols)"
           "List.map_filter (client_row env) (normalizeSymbols (client_engine env) inputSymbols) \<noteq> []"
           "filter (\<lambda>s. client_row env s = None) (normalizeSymbols (client_engine env) inputSymbols) = []"
           "stocks resp = List.map_filter (client_row env) (normalizeSymbols (client_engine env) inputSymbols)"
           "error resp = None"
  using assms unfolding fetchStocks_eq Let_def
  by (auto split: if_splits)

lemma fetchStocks_rows_origin:
  assumes res: "fetchStocks env inputSymbols = Inr resp" and row: "row \<in> set (stocks resp)"
  shows "(\<exists>s. client_row env s = Some row) \<or> (\<exists>s i. row = makeMockRow (client_engine env) s i (mock_clock env i))"
proof -
  have rows: "\<exists>s. client_row env s = Some r"
    if "r \<in> set (List.map_filter (client_row env) ys)" for r ys
    using that by (auto simp: set_map_filter)
  from res show ?thesis
  proof (cases rule: fetchStocks_cases)
    case nokey
    then show ?thesis using row buildMock_rows by metis
  next
    case norows
    then show ?thesis using row buildMock_rows by metis
  next
    case part
    then obtain s where "merge_rows (List.map_filter (client_row env) (normalizeSymbols (client_engine env) inputSymbols) @
                   buildMock (client_engine env) (mock_clock env)
                     (filter (\<lambda>s. client_row env s = None) (normalizeSymbols (client_engine env) inputSymbols))) s = Some row"
      using row by (auto simp: set_map_filter)
    then have "row \<in> set (List.map_filter (client_row env) (normalizeSymbols (client_engine env) inputSymbols)) \<or>
               row \<in> set (buildMock (client_engine env) (mock_clock env)
                     (filter (\<lambda>s. client_row env s = None) (normalizeSymbols (client_engine env) inputSymbols)))"
      using merge_rows_Some by fastforce
    then show ?thesis using rows buildMock_rows by metis
  next
    case good
    then show ?thesis using row rows by metis
  qed
qed

lemma client_error_iff:
  assumes res: "fetchStocks env inputSymbols = Inr resp"
  shows "error resp = None \<longleftrightarrow>
           truthy (API_KEY env) \<and> normalizeSymbols (client_engine env) inputSymbols \<noteq> [] \<and>
           (\<forall>s \<in> set (normalizeSymbols (client_engine env) inputSymbols). fetchQuote env s \<noteq> Inr None)"
proof -
  let ?symbols = "normalizeSymbols (client_engine env) inputSymbols"
  have a: "List.map_filter (client_row env) ?symbols = [] \<longleftrightarrow>
             (\<forall>s \<in> set ?symbols. client_row env s = None)"
    by (simp add: map_filter_Nil_iff list_all_iff)
  have b: "filter (\<lambda>s. client_row env s = None) ?symbols = [] \<longleftrightarrow>
             (\<forall>s \<in> set ?symbols. client_row env s \<noteq> None)"
    by (simp add: filter_None_Nil_iff list_all_iff)
  have q: "(\<forall>s \<in> set ?symbols. fetchQuote env s \<noteq> Inr None) \<longleftrightarrow>
           (\<forall>s \<in> set ?symbols. client_row env s \<noteq> None)"
    if "list_all isWellFormed ?symbols"
    using that by (auto simp: list_all_iff fetchQuote_total)
  from res show ?thesis
  proof (cases rule: fetchStocks_cases)
    case nokey
    then show ?thesis by simp
  next
    case norows
    have "\<not> (?symbols \<noteq> [] \<and> (\<forall>s \<in> set ?symbols. client_row env s \<noteq> None))"
      using norows(3) by (cases ?symbols) (auto simp: a)
    then show ?thesis using norows q by auto
  next
    case part
    then show ?thesis using q by (auto simp: b)
  next
    case good
    have "?symbols \<noteq> []" using good(3) by (auto simp: map_filter_simps)
    then show ?thesis using good q by (auto simp: b)
  qed
qed

lemma client_symbols_in_order:
  assumes echo: "\<forall>s \<in> set (normalizeSymbols (client_engine env) inputSymbols). \<forall>row.
                   fetchQuote env s = Inr (Some row) \<longrightarrow> symbol row = s"
    and stable: "stable_symbols (client_engine env)
                   (normalizeSymbols (client_engine env) inputSymbols)"
    and res: "fetchStocks env inputSymbols = Inr resp"
  shows "map symbol (stocks resp) =
           (if normalizeSymbols (client_engine env) inputSymbols = [] then defaultSymbols
            else normalizeSymbols (client_engine env) inputSymbols)"
proof -
  let ?symbols = "normalizeSymbols (client_engine env) inputSymbols"
  let ?rows = "List.map_filter (client_row env) ?symbols"
  let ?failed = "filter (\<lambda>s. client_row env s = None) ?symbols"
  let ?mocks = "buildMock (client_engine env) (mock_clock env) ?failed"
  have echo': "symbol row = s"
    if "list_all isWellFormed ?symbols" "s \<in> set ?symbols" "client_row env s = Some row"
    for s row
    using echo that by (simp add: list_all_iff fetchQuote_total)
  have nf: "normalizeSymbols (client_engine env) ?failed = ?failed"
    using stable by (rule normalize_filter_fix)
  have full: "map symbol (buildMock (client_engine env) (mock_clock env) ?symbols) =
        (if ?symbols = [] then defaultSymbols else ?symbols)"
    using stable by (simp add: map_symbol_buildMock normalize_idem)
  have all_good: "map symbol ?rows = ?symbols"
    if "?failed = []" and wf: "list_all isWellFormed ?symbols"
  proof -
    have "list_all (\<lambda>s. \<exists>r. client_row env s = Some r \<and> symbol r = s) ?symbols"
      using that echo'[OF wf] by (auto simp: filter_None_Nil_iff list_all_iff)
    then show ?thesis by (rule map_filter_all_Some)
  qed
  have partial: "map symbol (List.map_filter (merge_rows (?rows @ ?mocks)) ?symbols) = ?symbols"
    if ne: "?failed \<noteq> []" and wf: "list_all isWellFormed ?symbols"
  proof -
    have ms: "map symbol ?mocks = ?failed"
      using ne by (simp add: map_symbol_buildMock nf)
    have "\<exists>r. merge_rows (?rows @ ?mocks) s = Some r \<and> symbol r = s"
      if s: "s \<in> set ?symbols" for s
    proof -
      have "s \<in> symbol ` set (?rows @ ?mocks)"
      proof (cases "client_row env s")
        case None
        then have "s \<in> set (map symbol ?mocks)" using s by (simp add: ms)
        then show ?thesis by auto
      next
        case (Some r)
        then have "r \<in> set ?rows" using s by (auto simp: set_map_filter)
        moreover have "symbol r = s" using echo'[OF wf s Some] .
        ultimately show ?thesis by force
      qed
      then have "s \<in> dom (merge_rows (?rows @ ?mocks))" by (simp only: merge_rows_dom)
      then obtain r where "merge_rows (?rows @ ?mocks) s = Some r" by blast
      then show ?thesis using merge_rows_Some by blast
    qed
    then have "list_all (\<lambda>s. \<exists>r. merge_rows (?rows @ ?mocks) s = Some r \<and> symbol r = s) ?symbols"
      by (simp add: list_all_iff)
    then show ?thesis by (rule map_filter_all_Some)
  qed
  have rows_ne: "?rows \<noteq> [] \<Longrightarrow> ?symbols \<noteq> []"
    by (auto simp: map_filter_simps)
  from res show ?thesis
  proof (cases rule: fetchStocks_cases)
    case nokey then show ?thesis by (simp only: full)
  next
    case norows then show ?thesis by (simp only: full)
  next
    case part then show ?thesis using partial rows_ne by simp
  next
    case good then show ?thesis using all_good rows_ne by simp
  qed
qed

subsection \<open>The server orchestrator\<close>

lemma catch_null_eq: "catch_null (quote s) = Inr (caught_row quote s)"
  by (simp add: catch_null_def caught_row_def split: sum.splits option.splits)

lemma caught_row_Some: "caught_row quote s = Some row \<longleftrightarrow> quote s = Inr (Some row)"
  by (simp add: caught_row_def split: sum.splits option.splits)

lemma collect_rows_eq:
  "collect_rows quote syms out = Inr (out @ List.map_filter (caught_row quote) syms)"
proof (induction syms arbitrary: out)
  case Nil
  show ?case by (simp add: map_filter_simps)
next
  case (Cons s syms)
  show ?case
    by (cases "caught_row quote s") (simp_all add: catch_null_eq Cons.IH map_filter_simps)
qed

lemma finnhubQuote_symbol: "finnhubQuote env sy = Inr (Some row) \<Longrightarrow> symbol row = sy"
  unfolding finnhubQuote_def Let_def
  by (auto split: fetched.splits option.splits)

lemma alphaVantageQuote_symbol: "alphaVantageQuote env sy = Inr (Some row) \<Longrightarrow> symbol row = sy"
  unfolding alphaVantageQuote_def Let_def
  by (auto split: fetched.splits option.splits if_splits sum.splits)

lemma map_symbol_caught:
  assumes "\<And>s row. quote s = Inr (Some row) \<Longrightarrow> symbol row = s"
  shows "map symbol (List.map_filter (caught_row quote) syms) =
           filter (\<lambda>s. \<exists>row. quote s = Inr (Some row)) syms"
proof (induction syms)
  case Nil
  show ?case by (simp add: map_filter_simps)
next
  case (Cons s syms)
  show ?case
  proof (cases "caught_row quote s")
    case None
    then have "\<not> (\<exists>row. quote s = Inr (Some row))"
      by (simp add: caught_row_Some[symmetric])
    with None Cons.IH show ?thesis by (simp add: map_filter_simps)
  next
    case (Some row)
    then have "quote s = Inr (Some row)" by (simp add: caught_row_Some)
    with Some Cons.IH assms show ?thesis by (simp add: map_filter_simps)
  qed
qed

lemma fromFinnhub_eq:
  "fromFinnhub env symbols =
     Inr (if List.map_filter (caught_row (finnhubQuote env)) symbols \<noteq> []
          then \<lparr>stocks = List.map_filter (caught_row (finnhubQuote env)) symbols, error = None\<rparr>
          else \<lparr>stocks = [], error = Some ''Finnhub unavailable.''\<rparr>)"
  by (simp add: fromFinnhub_def collect_rows_eq)

lemma fromAV_eq:
  "fromAV env symbols =
     Inr (if List.map_filter (caught_row (alphaVantageQuote env)) symbols \<noteq> []
          then \<lparr>stocks = List.map_filter (caught_row (alphaVantageQuote env)) symbols, error = None\<rparr>
          else \<lparr>stocks = [], error = Some ''Alpha Vantage unavailable.''\<rparr>)"
  by (simp add: fromAV_def collect_rows_eq)

lemma uniqueSymbols_distinct: "distinct (uniqueSymbols eng q)"
  by (simp add: uniqueSymbols_def Let_def array_from_set_distinct)

lemma handler_total: "\<exists>resp. handler env q = Inr resp"
  by (simp add: handler_def Let_def fromFinnhub_eq fromAV_eq)

lemma error_mockData: "error (mockData eng clk symbols) \<noteq> None"
  by (simp add: mockData_def)

lemma handler_cases:
  assumes "handler env q = Inr resp"
  obtains
    (finn) "truthy (FINN_KEY env)"
           "stocks resp = List.map_filter (caught_row (finnhubQuote env)) (uniqueSymbols (server_engine env) q)"
           "stocks resp \<noteq> []" "error resp = None"
  | (av) "truthy (AV_KEY env)"
         "truthy (FINN_KEY env) \<longrightarrow>
            List.map_filter (caught_row (finnhubQuote env)) (uniqueSymbols (server_engine env) q) = []"
         "stocks resp = List.map_filter (caught_row (alphaVantageQuote env)) (uniqueSymbols (server_engine env) q)"
         "stocks resp \<noteq> []" "error resp = None"
  | (mock) "truthy (FINN_KEY env) \<longrightarrow>
              List.map_filter (caught_row (finnhubQuote env)) (uniqueSymbols (server_engine env) q) = []"
           "truthy (AV_KEY env) \<longrightarrow>
              List.map_filter (caught_row (alphaVantageQuote env)) (uniqueSymbols (server_engine env) q) = []"
           "resp = mockData (server_engine env) (mockData_clock env) (uniqueSymbols (server_engine env) q)"
  using assms unfolding handler_def Let_def fromFinnhub_eq fromAV_eq
  by (auto split: if_splits)

lemma map_filter_caught_Nil:
  "List.map_filter (caught_row quote) syms = [] \<longleftrightarrow>
     \<not> (\<exists>s \<in> set syms. \<exists>row. quote s = Inr (Some row))"
  by (auto simp: map_filter_Nil_iff list_all_iff caught_row_Some[symmetric])

lemma symbol_mockRow: "symbol (mockRow eng s i now) = s"
  by (simp add: mockRow_def Let_def)

lemma map_symbol_mockData: "map symbol (stocks (mockData eng clk symbols)) = symbols"
proof -
  have "map symbol (map (\<lambda>(i, s). mockRow eng s i (clk i)) (enumerate n xs)) = xs" for n xs
    by (induction xs arbitrary: n) (simp_all add: symbol_mockRow)
  then show ?thesis by (simp add: mockData_def)
qed

lemma server_error_iff:
  assumes "handler env q = Inr resp"
  shows "error resp = None \<longleftrightarrow>
           (truthy (FINN_KEY env) \<and>
              (\<exists>s \<in> set (uniqueSymbols (server_engine env) q). \<exists>row. finnhubQuote env s = Inr (Some row))) \<or>
           (truthy (AV_KEY env) \<and>
              (\<exists>s \<in> set (uniqueSymbols (server_engine env) q). \<exists>row. alphaVantageQuote env s = Inr (Some row)))"
  using assms
proof (cases rule: handler_cases)
  case finn
  then show ?thesis by (metis map_filter_caught_Nil)
next
  case av
  then show ?thesis by (metis map_filter_caught_Nil)
next
  case mock
  then show ?thesis using error_mockData by (metis map_filter_caught_Nil)
qed

lemma server_symbols:
  assumes "handler env q = Inr resp"
  shows "map symbol (stocks resp) =
           (if error resp \<noteq> None then uniqueSymbols (server_engine env) q
            else if truthy (FINN_KEY env) \<and>
                    (\<exists>s \<in> set (uniqueSymbols (server_engine env) q). \<exists>row. finnhubQuote env s = Inr (Some row))
            then filter (\<lambda>s. \<exists>row. finnhubQuote env s = Inr (Some row)) (uniqueSymbols (server_engine env) q)
            else filter (\<lambda>s. \<exists>row. alphaVantageQuote env s = Inr (Some row)) (uniqueSymbols (server_engine env) q))"
  using assms
proof (cases rule: handler_cases)
  case finn
  have "\<exists>s \<in> set (uniqueSymbols (server_engine env) q). \<exists>row. finnhubQuote env s = Inr (Some row)"
    using finn(2,3) map_filter_caught_Nil[of "finnhubQuote env" "uniqueSymbols (server_engine env) q"] by simp
  then show ?thesis using finn by (simp add: map_symbol_caught finnhubQuote_symbol)
next
  case av
  have n: "\<not> (truthy (FINN_KEY env) \<and>
           (\<exists>s \<in> set (uniqueSymbols (server_engine env) q). \<exists>row. finnhubQuote env s = Inr (Some row)))"
    using av(2) map_filter_caught_Nil[of "finnhubQuote env" "uniqueSymbols (server_engine env) q"] by blast
  have m: "map symbol (stocks resp) =
      filter (\<lambda>s. \<exists>row. alphaVantageQuote env s = Inr (Some row)) (uniqueSymbols (server_engine env) q)"
    by (simp add: av(3) map_symbol_caught alphaVantageQuote_symbol)
  show ?thesis
    by (simp only: av(5) n m if_False simp_thms)
next
  case mock
  then show ?thesis by (simp add: map_symbol_mockData error_mockData)
qed

subsection \<open>The mock generators\<close>

lemma toDouble_binade:
  assumes "2 powi e \<le> \<bar>x\<bar>" and "\<bar>x\<bar> < 2 powi (e + 1)" and "- 1022 \<le> e" and "e < 1023"
  shows "toDouble x =
           Fin (real_of_int (round_half_even (x / 2 powi (e - 52))) * 2 powi (e - 52))"
proof -
  let ?q = "(2::real) powi (e - 52)"
  let ?m = "round_half_even (x / ?q)"
  have q: "0 < ?q" by simp
  have r: "rd x = real_of_int ?m * ?q" using assms(1-3) by (rule rd_eval)
  have top: "(2::real) ^ 53 * ?q = 2 powi (e + 1)" by (rule powi_53)
  have "\<bar>x\<bar> / ?q \<le> 2 ^ 53" using assms(2) q top by (simp add: pos_divide_le_eq)
  then have "x / ?q \<le> real_of_int (2 ^ 53)" and "real_of_int (- (2 ^ 53)) \<le> x / ?q"
    using q by (simp_all add: abs_le_iff divide_simps split: if_splits) 
  then have "?m \<le> 2 ^ 53" and "- (2 ^ 53) \<le> ?m"
    by (simp_all only: round_half_even_le round_half_even_ge)
  then have "real_of_int ?m \<le> real_of_int (2 ^ 53)" and "real_of_int (- (2 ^ 53)) \<le> real_of_int ?m"
    by (simp_all only: of_int_le_iff)
  then have "real_of_int ?m * ?q \<le> real_of_int (2 ^ 53) * ?q"
    and "real_of_int (- (2 ^ 53)) * ?q \<le> real_of_int ?m * ?q"
    using q by (simp_all only: mult_right_mono less_imp_le)
  then have "real_of_int ?m * ?q \<le> 2 ^ 53 * ?q" and "- (2 ^ 53 * ?q) \<le> real_of_int ?m * ?q"
    by simp_all
  then have b: "\<bar>rd x\<bar> \<le> 2 powi (e + 1)" unfolding r top by (simp only: abs_le_iff) simp
  have "(2::real) powi (e + 1) \<le> 2 powi 1023"
    by (rule power_int_increasing) (use assms(4) in simp_all)
  moreover have "(2::real) powi 1023 < 2 ^ 1024" by simp
  ultimately have "\<bar>rd x\<bar> < 2 ^ 1024" using b by linarith
  then show ?thesis unfolding r by (simp add: toDouble_def Let_def r abs_less_iff)
qed

lemma toDouble_0: "toDouble 0 = Fin 0"
  by (simp add: toDouble_def rd_0)

lemma jadd_nat:
  "m + n \<le> 2 ^ 53 \<Longrightarrow> jadd (Fin (real m)) (Fin (real n)) = Fin (real (m + n))"
  using toDouble_of_nat[of "m + n"] by (simp add: jadd_def)

lemma jmul_nat:
  "m * n \<le> 2 ^ 53 \<Longrightarrow> jmul (Fin (real m)) (Fin (real n)) = Fin (real (m * n))"
  using toDouble_of_nat[of "m * n"] by (simp add: jmul_def)

lemma rd_small:
  "rd 1 = 1" "rd 3 = 3" "rd (- 3) = - 3" "rd 6 = 6" "rd 10000 = 10000" "rd (- 10000) = - 10000"
  using rd_of_int[of 1] rd_of_int[of 3] rd_of_int[of "- 3"] rd_of_int[of 6]
    rd_of_int[of 10000] rd_of_int[of "- 10000"]
  by simp_all

lemma between_Fin: "between lo hi a \<longleftrightarrow> (\<exists>x. a = Fin x \<and> lo \<le> x \<and> x \<le> hi)"
  by (cases a) (simp_all add: between_def)

lemma between_pct:
  assumes "between 0 1 r"
  shows "between (- 3) 3 (jsub (jmul r (Fin 6)) (Fin 3))"
proof -
  from assms obtain x where r: "r = Fin x" and x: "0 \<le> x" "x \<le> 1"
    by (auto simp: between_Fin)
  have "0 \<le> x * 6" and "x * 6 \<le> 6" using x by simp_all
  then obtain v where v: "toDouble (x * 6) = Fin v" "0 \<le> v" "v \<le> 6"
    using toDouble_between[of 0 "x * 6" 6] by (auto simp: rd_0 rd_small)
  have "- 3 \<le> v - 3" and "v - 3 \<le> 3" using v by simp_all
  then obtain w where w: "toDouble (v - 3) = Fin w" "- 3 \<le> w" "w \<le> 3"
    using toDouble_between[of "- 3" "v - 3" 3] by (auto simp: rd_small)
  show ?thesis
    by (simp add: r jmul_def jsub_def jadd_def jneg_def v w between_def)
qed

lemma minuteBucket_nat: "minuteBucket now = int (now div 60000)"
proof -
  have "\<lfloor>real now / real (60000::nat)\<rfloor> = int (now div 60000)"
    by (rule floor_divide_of_nat_eq)
  then show ?thesis by (simp add: minuteBucket_def)
qed

lemma minuteBucket_seconds: "minuteBucket now = \<lfloor>real now / 1000 / 60\<rfloor>"
  by (simp add: minuteBucket_def)

lemma Math_sin_between:
  assumes "\<forall>x. \<bar>engine_sin eng x\<bar> \<le> 1"
  shows "between (- 1) 1 (Math_sin eng (Fin x))"
  using assms[rule_format, of x] by (simp add: Math_sin_def between_def abs_le_iff)

text \<open>The argument of the sine is a finite number.\<close>

lemma sine_argument:
  assumes "k < 2 ^ 33" and "now < 2 ^ 53"
  shows "\<exists>n. jadd (jmul (Fin (real k)) (Fin 997)) (Fin (real_of_int (minuteBucket now))) =
              Fin (real n)"
proof -
  have k: "k * 997 \<le> 2 ^ 53" using assms(1) by simp
  have "now div 60000 \<le> now" by simp
  then have n: "now div 60000 < 2 ^ 53" using assms(2) by linarith
  have s: "k * 997 + now div 60000 \<le> 2 ^ 53"
  proof -
    have "now div 60000 < 2 ^ 53 div 60000 + 1" using assms(2)
      by (metis div_le_mono less_Suc_eq_le less_imp_le_nat Suc_eq_plus1)
    then show ?thesis using assms(1) by simp
  qed
  have "jmul (Fin (real k)) (Fin (real 997)) = Fin (real (k * 997))"
    using k by (rule jmul_nat)
  then have a: "jmul (Fin (real k)) (Fin 997) = Fin (real (k * 997))"
    by (simp only: of_nat_numeral)
  have b: "jadd (Fin (real (k * 997))) (Fin (real (now div 60000))) =
           Fin (real (k * 997 + now div 60000))"
    using s by (rule jadd_nat)
  show ?thesis unfolding minuteBucket_nat a of_int_of_nat_eq b by (rule exI) (rule refl)
qed

lemma mockData_r_between:
  assumes "\<forall>x. \<bar>engine_sin eng x\<bar> \<le> 1" and "i < 2 ^ 32" and "now < 2 ^ 53"
  shows "between 0 1 (mockData_r eng i now)"
proof -
  have "i < 2 ^ 33" using assms(2) by simp
  then obtain n where n: "jadd (jmul (Fin (real i)) (Fin 997))
      (Fin (real_of_int (minuteBucket now))) = Fin (real n)"
    using sine_argument[OF _ assms(3)] by blast
  obtain s where s: "Math_sin eng (Fin (real n)) = Fin s" "- 1 \<le> s" "s \<le> 1"
    using Math_sin_between[OF assms(1), of "real n"] by (auto simp: between_Fin)
  have "- (1 / 2) \<le> s / 2" and "s / 2 \<le> 1 / 2" using s by simp_all
  then obtain v where v: "toDouble (s / 2) = Fin v" "- (1 / 2) \<le> v" "v \<le> 1 / 2"
    using toDouble_between[of "- (1 / 2)" "s / 2" "1 / 2"] by (auto simp: rd_half rd_mhalf)
  have "0 \<le> v + 1 / 2" and "v + 1 / 2 \<le> 1" using v by simp_all
  then obtain w where w: "toDouble (v + 1 / 2) = Fin w" "0 \<le> w" "w \<le> 1"
    using toDouble_between[of 0 "v + 1 / 2" 1] by (auto simp: rd_0 rd_small)
  have "mockData_r eng i now = Fin w"
    unfolding mockData_r_def Let_def n s by (simp add: jmul_def jadd_def v w)
  then show ?thesis using w by (simp add: between_def)
qed

lemma makeMockRow_r_between:
  assumes "\<forall>x. \<bar>engine_sin eng x\<bar> \<le> 1" and "i < 2 ^ 32" and "now < 2 ^ 53" and "sy \<noteq> []"
  shows "between 0 1 (makeMockRow_r eng sy i now)"
proof -
  from assms(4) obtain c cs where sy: "sy = c # cs" by (cases sy) auto
  have c: "unat c < 2 ^ 16" using unsigned_less[of c, where 'a = nat] by simp
  then have "i + unat c \<le> 2 ^ 53" using assms(2) by simp
  then have "jadd (Fin (real i)) (Fin (real (unat c))) = Fin (real (i + unat c))"
    by (rule jadd_nat)
  then have seed: "jadd (Fin (real i)) (charCodeAt0 sy) = Fin (real (i + unat c))"
    unfolding sy charCodeAt0_def by (simp only: list.case)
  have "i + unat c < 2 ^ 33" using c assms(2) by simp
  then obtain n where n: "jadd (jmul (Fin (real (i + unat c))) (Fin 997))
      (Fin (real_of_int (minuteBucket now))) = Fin (real n)"
    using sine_argument[OF _ assms(3)] by blast
  obtain s where s: "Math_sin eng (Fin (real n)) = Fin s" "- 1 \<le> s" "s \<le> 1"
    using Math_sin_between[OF assms(1), of "real n"] by (auto simp: between_Fin)
  have "- 10000 \<le> s * 10000" and "s * 10000 \<le> 10000" using s by simp_all
  then obtain x where x: "toDouble (s * 10000) = Fin x"
    using toDouble_between[of "- 10000" "s * 10000" 10000] by (auto simp: rd_small)
  have "0 \<le> x - real_of_int \<lfloor>x\<rfloor>" and "x - real_of_int \<lfloor>x\<rfloor> \<le> 1" by linarith+
  then obtain w where w: "toDouble (x - real_of_int \<lfloor>x\<rfloor>) = Fin w" "0 \<le> w" "w \<le> 1"
    using toDouble_between[of 0 "x - real_of_int \<lfloor>x\<rfloor>" 1] by (auto simp: rd_0 rd_small)
  have "makeMockRow_r eng sy i now = Fin w"
    unfolding makeMockRow_r_def jitter_def Let_def seed n s
    by (simp add: jmul_def x Math_floor_def jsub_def jneg_def jadd_def w)
  then show ?thesis using w by (simp add: between_def)
qed

lemma mockRow_spec:
  assumes "between 0 1 (mockData_r eng i now)"
  shows "spec_mock_row (toDouble 0.8) (toDouble 0.4) (mockData_base s i) (mockData_r eng i now)
           (mockRow eng s i now)"
  using between_pct[OF assms] by (simp add: spec_mock_row_def mockRow_def Let_def)

lemma makeMockRow_spec:
  assumes "between 0 1 (makeMockRow_r eng sy i now)"
  shows "spec_mock_row (toDouble 0.85) (toDouble 0.3) (makeMockRow_b sy i)
           (makeMockRow_r eng sy i now) (makeMockRow eng sy i now)"
  using between_pct[OF assms] by (simp add: spec_mock_row_def makeMockRow_def Let_def)

lemma example_engine_sin: "\<bar>engine_sin example_engine x\<bar> \<le> 1"
proof -
  have "rd (- 1) \<le> rd (sin x)" and "rd (sin x) \<le> rd 1" by (rule rd_mono, simp)+
  moreover have "rd (- 1) = - 1" using rd_of_int[of "- 1"] by simp
  ultimately show ?thesis by (simp add: example_engine_def rd_small abs_le_iff)
qed

lemma literal_doubles:
  "toDouble (17 / 20) = Fin (7656119366529843 / 9007199254740992)"
  "toDouble (7656119366529843 / 9007199254740992) = Fin (7656119366529843 / 9007199254740992)"
  "toDouble (3 / 10) = Fin (5404319552844595 / 18014398509481984)"
  "toDouble (4 / 5) = Fin (3602879701896397 / 4503599627370496)"
  "toDouble (3602879701896397 / 4503599627370496) = Fin (3602879701896397 / 4503599627370496)"
  "toDouble (2 / 5) = Fin (3602879701896397 / 9007199254740992)"
  by (simp_all add: toDouble_binade[where e = "- 1"] toDouble_binade[where e = "- 2"]
      round_half_even_def)

lemma round_half_even_below:
  assumes "y < real_of_int m - 1 / 2"
  shows "round_half_even y \<le> m - 1"
proof -
  have "\<lfloor>y\<rfloor> \<le> m - 1" using assms by linarith
  then consider "\<lfloor>y\<rfloor> \<le> m - 2" | "\<lfloor>y\<rfloor> = m - 1" by linarith
  then show ?thesis
  proof cases
    case 1
    then show ?thesis using round_half_even_floor[of y] by linarith
  next
    case 2
    then have "y - real_of_int \<lfloor>y\<rfloor> < 1 / 2" using assms by simp
    then show ?thesis using 2 by (simp add: round_half_even_def)
  qed
qed

text \<open>
  The quotient \<open>Date.now() / 60_000\<close> is rounded to a double before \<open>Math.floor\<close> is applied;
  for every clock reading of the range of \<open>Date\<close> the result is the floor of the exact
  quotient.
\<close>

lemma minuteBucket_double:
  assumes "now \<le> 8640000000000000"
  shows "Math_floor (jdiv (Fin (real now)) (Fin 60000)) = Fin (real_of_int (minuteBucket now))"
proof -
  define x where "x = real now / 60000"
  define k where "k = now div 60000"
  have now: "now = 60000 * k + now mod 60000" by (simp add: k_def)
  have "now mod 60000 \<le> 59999"
    using mod_less_divisor[of 60000 now] by linarith
  then have "real (now mod 60000) \<le> 59999" by (metis of_nat_le_iff of_nat_numeral)
  moreover have "real now = 60000 * real k + real (now mod 60000)"
    by (metis now of_nat_add of_nat_mult of_nat_numeral)
  ultimately have kx: "real k \<le> x" and xk: "x \<le> real k + 59999 / 60000"
    by (simp_all add: x_def field_simps)
  have kle: "k \<le> 144000000000" using assms by (simp add: k_def)
  then have k53: "k \<le> 2 ^ 53" by simp
  have rk: "real k \<le> 144000000000" using kle by (metis of_nat_le_iff of_nat_numeral)
  have lo: "real k \<le> rd x" using rd_mono[OF kx] rd_of_nat[OF k53] by simp
  have hi: "rd x < real k + 1"
  proof (cases "x = 0")
    case True
    then show ?thesis by (simp add: rd_0)
  next
    case False
    define b where "b = binade x"
    have xpos: "0 < x" using False kx by (smt (verit) of_nat_0_le_iff)
    have b37: "b \<le> 37"
    proof (rule ccontr)
      assume "\<not> b \<le> 37"
      then have lt: "37 < b" by simp
      then have "2 powi b \<le> \<bar>x\<bar>" using binade_lower[OF False] by (simp add: b_def)
      moreover have "(2::real) powi 38 \<le> 2 powi b"
        by (rule power_int_increasing) (use lt in simp_all)
      ultimately have "(2::real) powi 38 \<le> x" using xpos by simp
      then show False using xk rk by simp
    qed
    define j where "j = nat (52 - b)"
    have j15: "15 \<le> j" using b37 by (simp add: j_def)
    have q: "(2::real) powi (b - 52) = 1 / 2 ^ j"
      using b37 by (simp add: j_def power_int_def field_simps)
    define m where "m = (int k + 1) * 2 ^ j"
    have "(2::real) ^ 15 \<le> 2 ^ j" using j15 by (rule power_increasing) simp
    then have big: "(32768::real) \<le> 2 ^ j" by simp
    have "real k + 1 - x \<ge> 1 / 60000" using xk by simp
    then have "(real k + 1 - x) * 2 ^ j \<ge> 1 / 60000 * 2 ^ j"
      by (intro mult_right_mono) simp_all
    moreover have "(1::real) / 60000 * 2 ^ j > 1 / 2" using big by simp
    ultimately have "(real k + 1 - x) * 2 ^ j > 1 / 2" by linarith
    then have "x * 2 ^ j < real_of_int m - 1 / 2" by (simp add: m_def algebra_simps)
    then have "round_half_even (x * 2 ^ j) \<le> m - 1" by (rule round_half_even_below)
    then have "real_of_int (round_half_even (x * 2 ^ j)) \<le> real_of_int (m - 1)"
      by (simp only: of_int_le_iff)
    then have "real_of_int (round_half_even (x * 2 ^ j)) / 2 ^ j \<le> real_of_int (m - 1) / 2 ^ j"
      by (intro divide_right_mono) simp_all
    moreover have "rd x = real_of_int (round_half_even (x * 2 ^ j)) / 2 ^ j"
      using False by (simp add: rd_def b_def[symmetric] q)
    moreover have "real_of_int (m - 1) / 2 ^ j = real k + 1 - 1 / 2 ^ j"
      by (simp add: m_def field_simps)
    moreover have "(0::real) < 1 / 2 ^ j" by simp
    ultimately show ?thesis by linarith
  qed
  have fl: "\<lfloor>rd x\<rfloor> = int k" using lo hi by (simp add: floor_eq_iff)
  have "rd x < 2 ^ 1024"
  proof -
    have "real k + 1 < 2 ^ 1024" using rk by simp
    then show ?thesis using hi by linarith
  qed
  moreover have "- (2 ^ 1024) < rd x"
  proof -
    have "- (2 ^ 1024) < (0::real)" by simp
    also have "0 \<le> rd x" using lo by (smt (verit) of_nat_0_le_iff)
    finally show ?thesis .
  qed
  ultimately have "toDouble x = Fin (rd x)" by (simp add: toDouble_def Let_def)
  then have "jdiv (Fin (real now)) (Fin 60000) = Fin (rd x)"
    by (simp add: jdiv_def x_def)
  then show ?thesis by (simp add: Math_floor_def fl minuteBucket_nat k_def)
qed

subsection \<open>Evaluation on concrete inputs\<close>

lemmas number_eval =
  StringToNumber_def strDecimal_def nonDecimal_def unsignedDecimal_def isExpChar_def
  scale10_def mantissa_def signedInteger_def digits1_def digitVal_def digitTable_def
  isFinite_def replace_comma_def replace_comma_percent_def
  trim_def isWhiteSpace_def whiteSpace_def js_def cu_def

lemmas double_eval =
  toDouble_binade[where e = 0] toDouble_binade[where e = 1] toDouble_binade[where e = 8]
  toDouble_binade[where e = 10] round_half_even_def

lemmas symbol_eval =
  normalizeSymbols_def uniqueSymbols_def array_from_set_def toUpperCase_ascii isAscii_def
  asciiUpperUnit_def asciiUpper_def trim_def isWhiteSpace_def whiteSpace_def defaultSymbols_def
  js_def cu_def

text \<open>The literals \<open>1234.56\<close> and \<open>2.3\<close> of the specification are the doubles nearest to them.\<close>

lemma num_examples:
  "num (Some (js ''1,234.56'')) = Some (toDouble 1234.56)"
  "num (Some (js ''2.3%'')) = Some (toDouble 2.3)"
  "num None = None"
  "num (Some (js ''abc'')) = None"
  "num (Some (js ''1.50'')) = Some (Fin 1.5)"
  "num (Some (js ''2.5%'')) = Some (Fin 2.5)"
  "num (Some (js ''1,234.5'')) = Some (Fin 1234.5)"
  "num (Some (js ''430.25'')) = Some (Fin 430.25)"
  by (simp_all add: num_def number_eval double_eval)

lemma num_server_examples:
  "num_server (Some (js ''abc'')) = Some NaN"
  "num_server (Some (js ''1.50'')) = Some (Fin 1.5)"
  "num_server (Some (js ''2.5%'')) = Some (Fin 2.5)"
  "num_server None = None"
  by (simp_all add: num_server_def number_eval double_eval)

lemma num_finite: "num s = Some n \<Longrightarrow> isFinite n"
  by (auto simp: num_def Let_def split: option.splits if_splits)

lemma normalize_examples:
  "normalizeSymbols eng [js ''aapl'', js ''AAPL'', js '' msft ''] = [js ''AAPL'', js ''MSFT'']"
  "normalizeSymbols eng [js ''AAPL'', js ''MSFT''] = [js ''AAPL'', js ''MSFT'']"
  "normalizeSymbols eng [js ''MSFT''] = [js ''MSFT'']"
  "normalizeSymbols eng [js '' ''] = []"
  by (simp_all add: symbol_eval)

lemma normalize_lone_surrogate: "normalizeSymbols eng [[0xD800]] = [[0xD800]]"
  by (simp add: normalizeSymbols_def array_from_set_def trim_def isWhiteSpace_def whiteSpace_def
      toUpperCase_def uppercaseMapping_def UTF16EncodeCodePoint_def)

lemma uniqueSymbols_examples:
  "uniqueSymbols eng (Some (js ''AAPL,MSFT'')) = [js ''AAPL'', js ''MSFT'']"
  "uniqueSymbols eng (Some (js '''')) = []"
  "uniqueSymbols eng None = defaultSymbols"
  by (simp_all add: symbol_eval)

lemma js_wellFormed_examples:
  "isWellFormed (js ''AAPL'')" "isWellFormed (js ''MSFT'')" "\<not> isWellFormed [0xD800]"
  by (simp_all add: js_def cu_def isHighSurrogate_def isLowSurrogate_def)

lemma js_neq_examples:
  "js ''AAPL'' \<noteq> js ''MSFT''" "js ''MSFT'' \<noteq> js ''AAPL''" "js ''AAPL'' \<noteq> []" "js ''MSFT'' \<noteq> []"
  by (simp_all add: js_def cu_def)

lemma binade_subnormal:
  assumes "x \<noteq> 0" and "\<bar>x\<bar> < 2 powi (- 1022)"
  shows "binade x = - 1022"
proof -
  have "\<not> - 1022 < binade x"
  proof
    assume "- 1022 < binade x"
    then have "2 powi binade x \<le> \<bar>x\<bar>" by (rule binade_lower[OF assms(1)])
    moreover have "(2::real) powi (- 1022) \<le> 2 powi binade x"
      by (rule power_int_increasing) (use \<open>- 1022 < binade x\<close> in simp_all)
    ultimately show False using assms(2) by linarith
  qed
  moreover have "- 1022 \<le> binade x" by (simp add: binade_def)
  ultimately show ?thesis by linarith
qed

lemma toDouble_subnormal:
  assumes "\<bar>x\<bar> < 2 powi (- 1022)"
  shows "toDouble x = Fin (real_of_int (round_half_even (x / 2 powi (- 1074))) * 2 powi (- 1074))"
proof (cases "x = 0")
  case True
  then show ?thesis by (simp add: toDouble_0 round_half_even_def)
next
  case False
  have r: "rd x = real_of_int (round_half_even (x / 2 powi (- 1074))) * 2 powi (- 1074)"
    using False binade_subnormal[OF False assms] by (simp add: rd_def)
  have "rd (- (2 powi (- 1022))) \<le> rd x" and "rd x \<le> rd (2 powi (- 1022))"
    using assms by (intro rd_mono; simp add: abs_less_iff)+
  moreover have "rd (2 powi (- 1022)) = 2 powi (- 1022)"
    by (simp add: rd_eval[where e = "- 1022"] round_half_even_def)
  moreover have "(2::real) powi (- 1022) < 2 ^ 1024" by simp
  ultimately have "rd x < 2 ^ 1024" and "- (2 ^ 1024) < rd x"
    by (simp_all add: rd_uminus)
  then show ?thesis by (simp add: toDouble_def Let_def r)
qed

lemma toDouble_overflow:
  assumes "2 ^ 1024 \<le> x"
  shows "toDouble x = PInf"
proof -
  have "rd (2 ^ 1024) = 2 ^ 1024"
    by (simp add: rd_eval[where e = 1024] round_half_even_def)
  then have "2 ^ 1024 \<le> rd x" using rd_mono[OF assms] by simp
  then show ?thesis by (simp add: toDouble_def Let_def)
qed

text \<open>
  A literal between two doubles is rounded to the nearer one, to the even one at a tie;
  a literal too small for the doubles is zero, one too large is an infinity.
\<close>

lemma StringToNumber_rounds:
  "StringToNumber (js ''9007199254740993'') = Fin 9007199254740992"
  "StringToNumber (js ''1e-400'') = Fin 0"
  "StringToNumber (js ''1e400'') = PInf"
  "StringToNumber (js ''0.1'') = Fin (3602879701896397 / 36028797018963968)"
     apply (simp add: number_eval toDouble_binade[where e = 53] round_half_even_def)
    apply (simp add: number_eval toDouble_subnormal round_half_even_def)
   apply (simp add: number_eval toDouble_overflow)
  apply (simp add: number_eval toDouble_binade[where e = "- 4"] round_half_even_def)
  done

lemma quote_body_row:
  "av_response env sy = quote_body name p \<Longrightarrow> name \<noteq> [] \<Longrightarrow> num (Some p) = Some n \<Longrightarrow>
   fetch_clock env sy = t \<Longrightarrow>
   client_row env sy =
     Some \<lparr>symbol = name, price = n, change = Fin 1.5, changePercent = Fin 2.5,
           marketCap = None, volume = None, lastUpdated = Instant t\<rparr>"
  by (simp add: client_row_def fetchQuote_try_def quote_body_def rateLimited_def truthy_def
      num_examples resolveLastUpdated_def)

lemma limit_body_row: "av_response env sy = limit_body \<Longrightarrow> client_row env sy = None"
  by (simp add: client_row_def fetchQuote_try_def limit_body_def rateLimited_def truthy_def
      js_def)

lemma aapl_only_rows:
  "client_row (client_with eng aapl_only) (js ''AAPL'') =
     Some \<lparr>symbol = js ''AAPL'', price = Fin 1234.5, change = Fin 1.5, changePercent = Fin 2.5,
           marketCap = None, volume = None, lastUpdated = Instant 0\<rparr>"
  "client_row (client_with eng aapl_only) (js ''MSFT'') = None"
proof -
  show "client_row (client_with eng aapl_only) (js ''AAPL'') =
     Some \<lparr>symbol = js ''AAPL'', price = Fin 1234.5, change = Fin 1.5, changePercent = Fin 2.5,
           marketCap = None, volume = None, lastUpdated = Instant 0\<rparr>"
    by (rule quote_body_row[where p = "js ''1,234.5''"])
       (simp_all add: client_with_def aapl_only_def num_examples js_neq_examples)
  show "client_row (client_with eng aapl_only) (js ''MSFT'') = None"
    by (rule limit_body_row) (simp add: client_with_def aapl_only_def js_neq_examples)
qed

lemma aapl_renamed_rows:
  "client_row (client_with eng aapl_renamed) (js ''AAPL'') =
     Some \<lparr>symbol = js ''MSFT'', price = Fin 1234.5, change = Fin 1.5, changePercent = Fin 2.5,
           marketCap = None, volume = None, lastUpdated = Instant 0\<rparr>"
  "client_row (client_with eng aapl_renamed) (js ''MSFT'') = None"
proof -
  show "client_row (client_with eng aapl_renamed) (js ''AAPL'') =
     Some \<lparr>symbol = js ''MSFT'', price = Fin 1234.5, change = Fin 1.5, changePercent = Fin 2.5,
           marketCap = None, volume = None, lastUpdated = Instant 0\<rparr>"
    by (rule quote_body_row[where p = "js ''1,234.5''"])
       (simp_all add: client_with_def aapl_renamed_def num_examples js_neq_examples)
  show "client_row (client_with eng aapl_renamed) (js ''MSFT'') = None"
    by (rule limit_body_row) (simp add: client_with_def aapl_renamed_def js_neq_examples)
qed

lemma names_swapped_rows:
  "client_row (client_with eng names_swapped) (js ''AAPL'') =
     Some \<lparr>symbol = js ''MSFT'', price = Fin 1234.5, change = Fin 1.5, changePercent = Fin 2.5,
           marketCap = None, volume = None, lastUpdated = Instant 0\<rparr>"
  "client_row (client_with eng names_swapped) (js ''MSFT'') =
     Some \<lparr>symbol = js ''AAPL'', price = Fin 430.25, change = Fin 1.5, changePercent = Fin 2.5,
           marketCap = None, volume = None, lastUpdated = Instant 0\<rparr>"
proof -
  show "client_row (client_with eng names_swapped) (js ''AAPL'') =
     Some \<lparr>symbol = js ''MSFT'', price = Fin 1234.5, change = Fin 1.5, changePercent = Fin 2.5,
           marketCap = None, volume = None, lastUpdated = Instant 0\<rparr>"
    by (rule quote_body_row[where p = "js ''1,234.5''"])
       (simp_all add: client_with_def names_swapped_def num_examples js_neq_examples)
  show "client_row (client_with eng names_swapped) (js ''MSFT'') =
     Some \<lparr>symbol = js ''AAPL'', price = Fin 430.25, change = Fin 1.5, changePercent = Fin 2.5,
           marketCap = None, volume = None, lastUpdated = Instant 0\<rparr>"
    by (rule quote_body_row[where p = "js ''430.25''"])
       (simp_all add: client_with_def names_swapped_def num_examples js_neq_examples)
qed

lemma client_with_fields:
  "truthy (API_KEY (client_with eng av))" "mock_clock (client_with eng av) = (\<lambda>_. 0)"
  "client_engine (client_with eng av) = eng"
  by (simp_all add: client_with_def truthy_def js_def)

lemma buildMock_MSFT:
  "buildMock eng (\<lambda>_. 0) [(js ''MSFT'')] = [makeMockRow eng (js ''MSFT'') 0 0]"
  by (simp add: buildMock_def normalize_examples)

lemma fetchStocks_aapl_only:
  "fetchStocks (client_with eng aapl_only) [js ''aapl'', js ''AAPL'', js '' msft ''] =
     Inr \<lparr>stocks =
            [\<lparr>symbol = (js ''AAPL''), price = Fin 1234.5, change = Fin 1.5, changePercent = Fin 2.5,
              marketCap = None, volume = None, lastUpdated = Instant 0\<rparr>,
             makeMockRow eng (js ''MSFT'') 0 0],
          error = Some ''Some symbols could not be refreshed (likely rate limit). Mock data shown for those entries.''\<rparr>"
  by (simp add: fetchStocks_eq Let_def normalize_examples map_filter_simps aapl_only_rows
      client_with_fields buildMock_MSFT merge_rows_def symbol_makeMockRow
      js_wellFormed_examples js_neq_examples)

lemma fetchStocks_aapl_renamed:
  "fetchStocks (client_with eng aapl_renamed) [(js ''AAPL''), (js ''MSFT'')] =
     Inr \<lparr>stocks = [makeMockRow eng (js ''MSFT'') 0 0],
          error = Some ''Some symbols could not be refreshed (likely rate limit). Mock data shown for those entries.''\<rparr>"
  by (simp add: fetchStocks_eq Let_def normalize_examples map_filter_simps aapl_renamed_rows
      client_with_fields buildMock_MSFT merge_rows_def symbol_makeMockRow
      js_wellFormed_examples js_neq_examples)

lemma fetchStocks_names_swapped:
  "fetchStocks (client_with eng names_swapped) [(js ''AAPL''), (js ''MSFT'')] =
     Inr \<lparr>stocks =
            [\<lparr>symbol = (js ''MSFT''), price = Fin 1234.5, change = Fin 1.5, changePercent = Fin 2.5,
              marketCap = None, volume = None, lastUpdated = Instant 0\<rparr>,
             \<lparr>symbol = (js ''AAPL''), price = Fin 430.25, change = Fin 1.5, changePercent = Fin 2.5,
              marketCap = None, volume = None, lastUpdated = Instant 0\<rparr>],
          error = None\<rparr>"
  by (simp add: fetchStocks_eq Let_def normalize_examples map_filter_simps names_swapped_rows
      client_with_fields js_wellFormed_examples)

lemma finnhub_aapl_only_quotes:
  "finnhubQuote finnhub_aapl_only (js ''AAPL'') =
     Inr (Some \<lparr>symbol = (js ''AAPL''), price = Fin 230, change = Fin 1, changePercent = Fin 0.5,
                marketCap = None, volume = None, lastUpdated = Instant 0\<rparr>)"
  "finnhubQuote finnhub_aapl_only (js ''MSFT'') = Inl FetchRejected"
  by (simp_all add: finnhubQuote_def finnhub_aapl_only_def js_neq_examples)

lemma handler_finnhub_aapl_only:
  "handler finnhub_aapl_only (Some (js ''AAPL,MSFT'')) =
     Inr \<lparr>stocks =
            [\<lparr>symbol = (js ''AAPL''), price = Fin 230, change = Fin 1, changePercent = Fin 0.5,
              marketCap = None, volume = None, lastUpdated = Instant 0\<rparr>],
          error = None\<rparr>"
proof -
  have k: "truthy (FINN_KEY finnhub_aapl_only)" "\<not> truthy (AV_KEY finnhub_aapl_only)"
    by (simp_all add: finnhub_aapl_only_def truthy_def js_def)
  show ?thesis
    by (simp add: handler_def Let_def fromFinnhub_eq k uniqueSymbols_examples map_filter_simps
        caught_row_def finnhub_aapl_only_quotes)
qed

lemma av_price_abc_quote:
  "alphaVantageQuote av_price_abc (js ''IBM'') =
     Inr (Some \<lparr>symbol = (js ''IBM''), price = NaN, change = Fin 1.5, changePercent = Fin 2.5,
                marketCap = None, volume = None, lastUpdated = Instant 0\<rparr>)"
  by (simp add: alphaVantageQuote_def av_price_abc_def quote_body_def truthy_def
      num_server_examples overviewCap_def resolveLastUpdated_def)

lemma handler_empty_query:
  "handler env (Some (js '''')) =
     Inr \<lparr>stocks = [], error = Some ''Using mock data (provider unavailable or rate-limited).''\<rparr>"
  by (simp add: handler_def Let_def fromFinnhub_eq fromAV_eq uniqueSymbols_examples
      map_filter_simps mockData_def)

lemma fetchStocks_lone_surrogate:
  "fetchStocks (client_with eng aapl_only) [[0xD800]] = Inl URIError"
  by (simp add: fetchStocks_eq Let_def normalize_lone_surrogate client_with_fields
      isHighSurrogate_def)

lemma map_eq_length: "map f xs = ys \<Longrightarrow> length xs = length ys"
  by auto

lemma fetchStocks_total:
  "list_all isWellFormed (normalizeSymbols (client_engine env) inputSymbols) \<Longrightarrow>
     \<exists>resp. fetchStocks env inputSymbols = Inr resp"
  by (simp add: fetchStocks_returns_iff)

lemma aapl_msft_wellFormed:
  "list_all isWellFormed (normalizeSymbols eng [js ''aapl'', js ''AAPL'', js '' msft ''])"
  by (simp add: normalize_examples js_wellFormed_examples)

lemma aapl_msft_stable:
  "stable_symbols eng (normalizeSymbols eng [js ''aapl'', js ''AAPL'', js '' msft ''])"
  by (rule ascii_stable) (simp add: isAscii_def js_def cu_def)

lemma aapl_only_echo:
  "\<forall>s \<in> set (normalizeSymbols eng [js ''aapl'', js ''AAPL'', js '' msft '']). \<forall>row.
      fetchQuote (client_with eng aapl_only) s = Inr (Some row) \<longrightarrow> symbol row = s"
  by (auto simp: normalize_examples fetchQuote_eq js_wellFormed_examples aapl_only_rows)

subsection \<open>The client normalizer and adapter\<close>

lemma num_absent: "num None = None"
  by (simp add: num_def)

lemma num_non_finite:
  "\<not> isFinite (StringToNumber (trim (replace_comma (replace_comma_percent str)))) \<Longrightarrow>
     num (Some str) = None"
  by (simp add: num_def)

lemma fetchQuote_try_finite:
  "fetchQuote_try env sy = Inr (Some row) \<Longrightarrow>
     isFinite (price row) \<and> isFinite (change row) \<and> isFinite (changePercent row)"
  unfolding fetchQuote_try_def
  by (auto split: fetched.splits if_splits option.splits sum.splits dest: num_finite)

lemma fetchQuote_mandatory_finite:
  "fetchQuote env sy = Inr (Some row) \<Longrightarrow>
     isFinite (price row) \<and> isFinite (change row) \<and> isFinite (changePercent row)"
  using fetchQuote_try_finite[of env sy row]
  by (auto simp: fetchQuote_def split: sum.splits if_splits)

lemma fetchQuote_no_data:
  assumes "isWellFormed sy" "av_response env sy = Json data" "GlobalQuote data = Some g"
    and "num (map_of g ''05. price'') = None \<or> num (map_of g ''09. change'') = None \<or>
         num (map_of g ''10. change percent'') = None"
  shows "fetchQuote env sy = Inr None"
  using assms
  by (auto simp: fetchQuote_def fetchQuote_try_def split: option.splits)

lemma client_defaults:
  assumes "normalizeSymbols (client_engine env) inputSymbols = []"
  shows "\<exists>resp. fetchStocks env inputSymbols = Inr resp \<and>
           map symbol (stocks resp) = defaultSymbols"
proof -
  obtain resp where r: "fetchStocks env inputSymbols = Inr resp"
    using fetchStocks_total[of env inputSymbols] by (auto simp: assms)
  have "\<forall>s \<in> set (normalizeSymbols (client_engine env) inputSymbols). \<forall>row.
          fetchQuote env s = Inr (Some row) \<longrightarrow> symbol row = s"
    by (simp add: assms)
  moreover have "stable_symbols (client_engine env)
      (normalizeSymbols (client_engine env) inputSymbols)"
    by (simp add: assms stable_symbols_def)
  ultimately have "map symbol (stocks resp) = defaultSymbols"
    using client_symbols_in_order[OF _ _ r] by (simp add: assms)
  with r show ?thesis by (intro exI conjI)
qed

lemma server_defaults: "uniqueSymbols eng None = defaultSymbols"
  by (rule uniqueSymbols_examples(3))

lemma fetchStocks_nonempty:
  assumes res: "fetchStocks env inputSymbols = Inr resp"
    and stable: "stable_symbols (client_engine env)
                   (normalizeSymbols (client_engine env) inputSymbols)"
  shows "stocks resp \<noteq> []"
  using res
proof (cases rule: fetchStocks_cases)
  case nokey
  have "map symbol (stocks resp) \<noteq> []"
    by (simp add: nokey(2) map_symbol_buildMock defaultSymbols_def)
  then show ?thesis by simp
next
  case norows
  have "map symbol (stocks resp) \<noteq> []"
    by (simp add: norows(4) map_symbol_buildMock defaultSymbols_def)
  then show ?thesis by simp
next
  case part
  let ?symbols = "normalizeSymbols (client_engine env) inputSymbols"
  let ?rows = "List.map_filter (client_row env) ?symbols"
  let ?failed = "filter (\<lambda>s. client_row env s = None) ?symbols"
  let ?mocks = "buildMock (client_engine env) (mock_clock env) ?failed"
  obtain s where s: "s \<in> set ?failed" using part(4) by (cases ?failed) auto
  have nf: "normalizeSymbols (client_engine env) ?failed = ?failed"
    using stable by (rule normalize_filter_fix)
  have "map symbol ?mocks = ?failed"
    using part(4) by (simp add: map_symbol_buildMock nf)
  then have "s \<in> set (map symbol ?mocks)" using s by simp
  then have "s \<in> symbol ` set (?rows @ ?mocks)" by auto
  then have "s \<in> dom (merge_rows (?rows @ ?mocks))" by (simp only: merge_rows_dom)
  then obtain r where "merge_rows (?rows @ ?mocks) s = Some r" by blast
  moreover have "s \<in> set ?symbols" using s by simp
  ultimately have "r \<in> set (List.map_filter (merge_rows (?rows @ ?mocks)) ?symbols)"
    by (auto simp: set_map_filter)
  then show ?thesis by (auto simp: part(5))
next
  case good
  then show ?thesis by simp
qed

section \<open>The claims\<close>

subsection \<open>C1: when the diagnostic is present\<close>

text \<open>
  C1, amended. On every engine and on a symbol list whose normalised symbols are well
  formed, the client's \<open>fetchStocks\<close> returns, and its \<open>error\<close> is absent exactly when a key
  is configured, the normalised symbol list is not empty and \<open>fetchQuote\<close> gave a row for
  every normalised symbol. The server's \<open>handler\<close> always returns, and its \<open>error\<close> is
  absent exactly when a configured provider gave a row for at least one symbol: it
  reports no diagnostic for the symbols that provider failed on.
\<close>

theorem error_presence:
  "(list_all isWellFormed (normalizeSymbols (client_engine env) inputSymbols) \<longrightarrow>
      (\<exists>resp. fetchStocks env inputSymbols = Inr resp \<and>
         (error resp = None \<longleftrightarrow>
            truthy (API_KEY env) \<and> normalizeSymbols (client_engine env) inputSymbols \<noteq> [] \<and>
            (\<forall>s \<in> set (normalizeSymbols (client_engine env) inputSymbols). fetchQuote env s \<noteq> Inr None)))) \<and>
   (\<exists>resp. handler senv q = Inr resp \<and>
      (error resp = None \<longleftrightarrow>
         (truthy (FINN_KEY senv) \<and>
            (\<exists>s \<in> set (uniqueSymbols (server_engine senv) q). \<exists>row. finnhubQuote senv s = Inr (Some row))) \<or>
         (truthy (AV_KEY senv) \<and>
            (\<exists>s \<in> set (uniqueSymbols (server_engine senv) q). \<exists>row. alphaVantageQuote senv s = Inr (Some row)))))"
proof (intro conjI impI)
  assume "list_all isWellFormed (normalizeSymbols (client_engine env) inputSymbols)"
  then obtain resp where r: "fetchStocks env inputSymbols = Inr resp"
    using fetchStocks_total by blast
  show "\<exists>resp. fetchStocks env inputSymbols = Inr resp \<and>
      (error resp = None \<longleftrightarrow>
            truthy (API_KEY env) \<and> normalizeSymbols (client_engine env) inputSymbols \<noteq> [] \<and>
            (\<forall>s \<in> set (normalizeSymbols (client_engine env) inputSymbols). fetchQuote env s \<noteq> Inr None))"
    by (intro exI conjI, rule r, rule client_error_iff[OF r])
next
  obtain resp where r: "handler senv q = Inr resp"
    using handler_total by blast
  show "\<exists>resp. handler senv q = Inr resp \<and>
      (error resp = None \<longleftrightarrow>
         (truthy (FINN_KEY senv) \<and>
            (\<exists>s \<in> set (uniqueSymbols (server_engine senv) q). \<exists>row. finnhubQuote senv s = Inr (Some row))) \<or>
         (truthy (AV_KEY senv) \<and>
            (\<exists>s \<in> set (uniqueSymbols (server_engine senv) q). \<exists>row. alphaVantageQuote senv s = Inr (Some row))))"
    by (intro exI conjI, rule r, rule server_error_iff[OF r])
qed

theorem error_presence_witness:
  "(\<exists>resp. fetchStocks (client_with example_engine aapl_only) [js ''aapl'', js ''AAPL'', js '' msft ''] = Inr resp \<and>
           error resp \<noteq> None) \<and>
   (\<exists>resp. handler finnhub_aapl_only (Some (js ''AAPL,MSFT'')) = Inr resp \<and> error resp = None)"
proof -
  have a: "fetchQuote (client_with example_engine aapl_only) (js ''MSFT'') = Inr None"
    by (simp add: fetchQuote_eq js_wellFormed_examples aapl_only_rows)
  have b: "truthy (FINN_KEY finnhub_aapl_only)"
    by (simp add: finnhub_aapl_only_def truthy_def js_def)
  show ?thesis
    using error_presence[of "client_with example_engine aapl_only" "[js ''aapl'', js ''AAPL'', js '' msft '']"
        finnhub_aapl_only "Some (js ''AAPL,MSFT'')"]
      aapl_msft_wellFormed[of example_engine] a b finnhub_aapl_only_quotes(1)
    by (auto simp: normalize_examples uniqueSymbols_examples client_with_fields)
qed

text \<open>
  The claim as stated fails on the server: Finnhub answers \<open>AAPL\<close>, the request for \<open>MSFT\<close>
  is rejected, and the response has the one row and no \<open>error\<close>.
\<close>

theorem error_presence_counterexample:
  "uniqueSymbols (server_engine finnhub_aapl_only) (Some (js ''AAPL,MSFT'')) =
     [js ''AAPL'', js ''MSFT''] \<and>
   finnhubQuote finnhub_aapl_only (js ''MSFT'') = Inl FetchRejected \<and>
   handler finnhub_aapl_only (Some (js ''AAPL,MSFT'')) =
     Inr \<lparr>stocks =
            [\<lparr>symbol = js ''AAPL'', price = Fin 230, change = Fin 1, changePercent = Fin 0.5,
              marketCap = None, volume = None, lastUpdated = Instant 0\<rparr>],
          error = None\<rparr>"
  by (simp add: uniqueSymbols_examples finnhub_aapl_only_quotes handler_finnhub_aapl_only)

subsection \<open>C2: one row per normalised symbol\<close>

text \<open>
  C2, amended. On the client, when the normalised symbol list is not empty, its symbols
  are well formed and stable (normalising one of them again leaves it unchanged, as it
  does every ASCII symbol on every engine, lemma \<open>ascii_stable\<close>), and every row the
  provider gives carries the symbol it was requested for, \<open>stocks\<close> has exactly one row per
  normalised symbol. On the server, the rows of a response carry distinct symbols: every
  normalised symbol when the response has \<open>error\<close> (mock data), and otherwise exactly the
  normalised symbols that the answering provider satisfied, Finnhub when its key is
  configured and it satisfied some symbol, Alpha Vantage otherwise.
\<close>

theorem row_count:
  "(list_all isWellFormed (normalizeSymbols (client_engine env) inputSymbols) \<and>
    stable_symbols (client_engine env) (normalizeSymbols (client_engine env) inputSymbols) \<and>
    (\<forall>s \<in> set (normalizeSymbols (client_engine env) inputSymbols). \<forall>row.
        fetchQuote env s = Inr (Some row) \<longrightarrow> symbol row = s) \<and>
    normalizeSymbols (client_engine env) inputSymbols \<noteq> [] \<longrightarrow>
      (\<exists>resp. fetchStocks env inputSymbols = Inr resp \<and>
         length (stocks resp) = length (normalizeSymbols (client_engine env) inputSymbols) \<and>
         distinct (map symbol (stocks resp)) \<and>
         set (map symbol (stocks resp)) = set (normalizeSymbols (client_engine env) inputSymbols))) \<and>
   (\<exists>resp. handler senv q = Inr resp \<and>
      distinct (map symbol (stocks resp)) \<and>
      set (map symbol (stocks resp)) =
        (if error resp \<noteq> None then set (uniqueSymbols (server_engine senv) q)
         else if truthy (FINN_KEY senv) \<and>
                 (\<exists>s \<in> set (uniqueSymbols (server_engine senv) q). \<exists>row. finnhubQuote senv s = Inr (Some row))
         then set (filter (\<lambda>s. \<exists>row. finnhubQuote senv s = Inr (Some row)) (uniqueSymbols (server_engine senv) q))
         else set (filter (\<lambda>s. \<exists>row. alphaVantageQuote senv s = Inr (Some row)) (uniqueSymbols (server_engine senv) q))) \<and>
      length (stocks resp) =
        (if error resp \<noteq> None then length (uniqueSymbols (server_engine senv) q)
         else if truthy (FINN_KEY senv) \<and>
                 (\<exists>s \<in> set (uniqueSymbols (server_engine senv) q). \<exists>row. finnhubQuote senv s = Inr (Some row))
         then length (filter (\<lambda>s. \<exists>row. finnhubQuote senv s = Inr (Some row)) (uniqueSymbols (server_engine senv) q))
         else length (filter (\<lambda>s. \<exists>row. alphaVantageQuote senv s = Inr (Some row)) (uniqueSymbols (server_engine senv) q))))"
proof (intro conjI impI)
  assume h: "list_all isWellFormed (normalizeSymbols (client_engine env) inputSymbols) \<and>
    stable_symbols (client_engine env) (normalizeSymbols (client_engine env) inputSymbols) \<and>
    (\<forall>s \<in> set (normalizeSymbols (client_engine env) inputSymbols). \<forall>row.
        fetchQuote env s = Inr (Some row) \<longrightarrow> symbol row = s) \<and>
    normalizeSymbols (client_engine env) inputSymbols \<noteq> []"
  then obtain resp where r: "fetchStocks env inputSymbols = Inr resp"
    using fetchStocks_total by blast
  have m: "map symbol (stocks resp) = normalizeSymbols (client_engine env) inputSymbols"
    using client_symbols_in_order[OF _ _ r] h by simp
  have l: "length (stocks resp) = length (normalizeSymbols (client_engine env) inputSymbols)"
    using map_eq_length[OF m] .
  have d: "distinct (map symbol (stocks resp))"
    by (simp only: m normalizeSymbols_distinct)
  have e: "set (map symbol (stocks resp)) = set (normalizeSymbols (client_engine env) inputSymbols)"
    by (simp only: m)
  show "\<exists>resp. fetchStocks env inputSymbols = Inr resp \<and>
         length (stocks resp) = length (normalizeSymbols (client_engine env) inputSymbols) \<and>
         distinct (map symbol (stocks resp)) \<and>
         set (map symbol (stocks resp)) = set (normalizeSymbols (client_engine env) inputSymbols)"
    by (intro exI conjI, rule r, rule l, rule d, rule e)
next
  obtain resp where r: "handler senv q = Inr resp"
    using handler_total by blast
  note m = server_symbols[OF r]
  have d: "distinct (map symbol (stocks resp))"
    unfolding m by (simp add: uniqueSymbols_distinct)
  have s: "set (map symbol (stocks resp)) =
        (if error resp \<noteq> None then set (uniqueSymbols (server_engine senv) q)
         else if truthy (FINN_KEY senv) \<and>
                 (\<exists>s \<in> set (uniqueSymbols (server_engine senv) q). \<exists>row. finnhubQuote senv s = Inr (Some row))
         then set (filter (\<lambda>s. \<exists>row. finnhubQuote senv s = Inr (Some row)) (uniqueSymbols (server_engine senv) q))
         else set (filter (\<lambda>s. \<exists>row. alphaVantageQuote senv s = Inr (Some row)) (uniqueSymbols (server_engine senv) q)))"
    using arg_cong[where f = set, OF m] by (simp only: if_distrib[where f = set])
  have l: "length (stocks resp) =
        (if error resp \<noteq> None then length (uniqueSymbols (server_engine senv) q)
         else if truthy (FINN_KEY senv) \<and>
                 (\<exists>s \<in> set (uniqueSymbols (server_engine senv) q). \<exists>row. finnhubQuote senv s = Inr (Some row))
         then length (filter (\<lambda>s. \<exists>row. finnhubQuote senv s = Inr (Some row)) (uniqueSymbols (server_engine senv) q))
         else length (filter (\<lambda>s. \<exists>row. alphaVantageQuote senv s = Inr (Some row)) (uniqueSymbols (server_engine senv) q)))"
    using map_eq_length[OF m] by (simp add: if_distrib[of length])
  show "\<exists>resp. handler senv q = Inr resp \<and>
      distinct (map symbol (stocks resp)) \<and>
      set (map symbol (stocks resp)) =
        (if error resp \<noteq> None then set (uniqueSymbols (server_engine senv) q)
         else if truthy (FINN_KEY senv) \<and>
                 (\<exists>s \<in> set (uniqueSymbols (server_engine senv) q). \<exists>row. finnhubQuote senv s = Inr (Some row))
         then set (filter (\<lambda>s. \<exists>row. finnhubQuote senv s = Inr (Some row)) (uniqueSymbols (server_engine senv) q))
         else set (filter (\<lambda>s. \<exists>row. alphaVantageQuote senv s = Inr (Some row)) (uniqueSymbols (server_engine senv) q))) \<and>
      length (stocks resp) =
        (if error resp \<noteq> None then length (uniqueSymbols (server_engine senv) q)
         else if truthy (FINN_KEY senv) \<and>
                 (\<exists>s \<in> set (uniqueSymbols (server_engine senv) q). \<exists>row. finnhubQuote senv s = Inr (Some row))
         then length (filter (\<lambda>s. \<exists>row. finnhubQuote senv s = Inr (Some row)) (uniqueSymbols (server_engine senv) q))
         else length (filter (\<lambda>s. \<exists>row. alphaVantageQuote senv s = Inr (Some row)) (uniqueSymbols (server_engine senv) q)))"
    by (intro exI conjI, rule r, rule d, rule s, rule l)
qed

theorem row_count_witness:
  "(\<exists>resp. fetchStocks (client_with example_engine aapl_only) [js ''aapl'', js ''AAPL'', js '' msft ''] = Inr resp \<and>
          length (stocks resp) = 2 \<and>
          set (map symbol (stocks resp)) = {js ''AAPL'', js ''MSFT''}) \<and>
   (\<exists>resp. handler finnhub_aapl_only (Some (js ''AAPL,MSFT'')) = Inr resp \<and>
          error resp = None \<and> map symbol (stocks resp) = [js ''AAPL''])"
proof -
  have "list_all isWellFormed (normalizeSymbols example_engine [js ''aapl'', js ''AAPL'', js '' msft '']) \<and>
        stable_symbols example_engine (normalizeSymbols example_engine [js ''aapl'', js ''AAPL'', js '' msft '']) \<and>
        (\<forall>s \<in> set (normalizeSymbols example_engine [js ''aapl'', js ''AAPL'', js '' msft '']). \<forall>row.
           fetchQuote (client_with example_engine aapl_only) s = Inr (Some row) \<longrightarrow> symbol row = s) \<and>
        normalizeSymbols example_engine [js ''aapl'', js ''AAPL'', js '' msft ''] \<noteq> []"
    using aapl_only_echo aapl_msft_wellFormed aapl_msft_stable by (simp add: normalize_examples)
  then show ?thesis
    using row_count[of "client_with example_engine aapl_only" "[js ''aapl'', js ''AAPL'', js '' msft '']"
        finnhub_aapl_only "Some (js ''AAPL,MSFT'')"]
    by (auto simp: normalize_examples client_with_fields handler_finnhub_aapl_only)
qed

text \<open>
  The claim as stated fails on the server, which drops the symbols its provider failed
  on, and on the client when the provider names a row by another symbol than the one
  requested: the row is then lost in the merge by symbol.
\<close>

theorem row_count_counterexample:
  "uniqueSymbols (server_engine finnhub_aapl_only) (Some (js ''AAPL,MSFT'')) =
     [js ''AAPL'', js ''MSFT''] \<and>
   handler finnhub_aapl_only (Some (js ''AAPL,MSFT'')) =
     Inr \<lparr>stocks =
            [\<lparr>symbol = js ''AAPL'', price = Fin 230, change = Fin 1, changePercent = Fin 0.5,
              marketCap = None, volume = None, lastUpdated = Instant 0\<rparr>],
          error = None\<rparr> \<and>
   normalizeSymbols example_engine [js ''AAPL'', js ''MSFT''] = [js ''AAPL'', js ''MSFT''] \<and>
   fetchStocks (client_with example_engine aapl_renamed) [js ''AAPL'', js ''MSFT''] =
     Inr \<lparr>stocks = [makeMockRow example_engine (js ''MSFT'') 0 0],
          error = Some ''Some symbols could not be refreshed (likely rate limit). Mock data shown for those entries.''\<rparr>"
  by (simp add: uniqueSymbols_examples handler_finnhub_aapl_only normalize_examples
      fetchStocks_aapl_renamed)

subsection \<open>C3: no exception crosses the entry points\<close>

text \<open>
  C3. The client's \<open>fetchStocks\<close>, on any engine and with a key configured, asked for the
  one symbol that consists of a lone high surrogate: \<open>encodeURIComponent\<close> throws a
  \<open>URIError\<close> outside the \<open>try\<close> block of \<open>fetchQuote\<close>, and \<open>fetchStocks\<close> raises it to its
  caller. (The server's \<open>handler\<close> always returns, lemma \<open>handler_total\<close>; \<open>fetchStocks\<close>
  returns exactly when no key is configured or every normalised symbol is well formed,
  lemma \<open>fetchStocks_returns_iff\<close>.)
\<close>

theorem fetchStocks_URIError:
  "normalizeSymbols eng [[0xD800]] = [[0xD800]] \<and>
   truthy (API_KEY (client_with eng aapl_only)) \<and>
   fetchQuote (client_with eng aapl_only) [0xD800] = Inl URIError \<and>
   fetchStocks (client_with eng aapl_only) [[0xD800]] = Inl URIError"
  by (simp add: normalize_lone_surrogate client_with_fields fetchQuote_eq
      fetchStocks_lone_surrogate isHighSurrogate_def)

subsection \<open>C4: the order of the rows\<close>

text \<open>
  C4, amended. On the client, when the normalised symbols are well formed and stable
  (normalising one of them again leaves it unchanged, as it does every ASCII symbol on
  every engine, lemma \<open>ascii_stable\<close>) and every row the provider gives carries the symbol
  it was requested for, the symbols of \<open>stocks\<close> are the normalised symbol list in its
  order (the default symbols when that list is empty). On the server, the symbols of
  \<open>stocks\<close> are the whole normalised list when the response is mock data, and otherwise
  the normalised symbols that the answering provider satisfied, in the order of the
  normalised list.
\<close>

theorem row_order:
  "(list_all isWellFormed (normalizeSymbols (client_engine env) inputSymbols) \<and>
    stable_symbols (client_engine env) (normalizeSymbols (client_engine env) inputSymbols) \<and>
    (\<forall>s \<in> set (normalizeSymbols (client_engine env) inputSymbols). \<forall>row.
        fetchQuote env s = Inr (Some row) \<longrightarrow> symbol row = s) \<longrightarrow>
      (\<exists>resp. fetchStocks env inputSymbols = Inr resp \<and>
         map symbol (stocks resp) =
           (if normalizeSymbols (client_engine env) inputSymbols = [] then defaultSymbols
            else normalizeSymbols (client_engine env) inputSymbols))) \<and>
   (\<exists>resp. handler senv q = Inr resp \<and>
      map symbol (stocks resp) =
        (if error resp \<noteq> None then uniqueSymbols (server_engine senv) q
         else if truthy (FINN_KEY senv) \<and>
                 (\<exists>s \<in> set (uniqueSymbols (server_engine senv) q). \<exists>row. finnhubQuote senv s = Inr (Some row))
         then filter (\<lambda>s. \<exists>row. finnhubQuote senv s = Inr (Some row)) (uniqueSymbols (server_engine senv) q)
         else filter (\<lambda>s. \<exists>row. alphaVantageQuote senv s = Inr (Some row)) (uniqueSymbols (server_engine senv) q)))"
proof (intro conjI impI)
  assume h: "list_all isWellFormed (normalizeSymbols (client_engine env) inputSymbols) \<and>
    stable_symbols (client_engine env) (normalizeSymbols (client_engine env) inputSymbols) \<and>
    (\<forall>s \<in> set (normalizeSymbols (client_engine env) inputSymbols). \<forall>row.
        fetchQuote env s = Inr (Some row) \<longrightarrow> symbol row = s)"
  then obtain resp where r: "fetchStocks env inputSymbols = Inr resp"
    using fetchStocks_total by blast
  have m: "map symbol (stocks resp) =
           (if normalizeSymbols (client_engine env) inputSymbols = [] then defaultSymbols
            else normalizeSymbols (client_engine env) inputSymbols)"
    using h by (intro client_symbols_in_order[OF _ _ r]) simp_all
  show "\<exists>resp. fetchStocks env inputSymbols = Inr resp \<and>
         map symbol (stocks resp) =
           (if normalizeSymbols (client_engine env) inputSymbols = [] then defaultSymbols
            else normalizeSymbols (client_engine env) inputSymbols)"
    by (intro exI conjI, rule r, rule m)
next
  obtain resp where r: "handler senv q = Inr resp"
    using handler_total by blast
  note s = server_symbols[OF r]
  show "\<exists>resp. handler senv q = Inr resp \<and>
      map symbol (stocks resp) =
        (if error resp \<noteq> None then uniqueSymbols (server_engine senv) q
         else if truthy (FINN_KEY senv) \<and>
                 (\<exists>s \<in> set (uniqueSymbols (server_engine senv) q). \<exists>row. finnhubQuote senv s = Inr (Some row))
         then filter (\<lambda>s. \<exists>row. finnhubQuote senv s = Inr (Some row)) (uniqueSymbols (server_engine senv) q)
         else filter (\<lambda>s. \<exists>row. alphaVantageQuote senv s = Inr (Some row)) (uniqueSymbols (server_engine senv) q))"
    by (intro exI conjI, rule r, rule s)
qed

theorem row_order_witness:
  "(\<exists>resp. fetchStocks (client_with example_engine aapl_only) [js ''aapl'', js ''AAPL'', js '' msft ''] = Inr resp \<and>
          map symbol (stocks resp) = [js ''AAPL'', js ''MSFT'']) \<and>
   (\<exists>resp. handler finnhub_aapl_only (Some (js ''AAPL,MSFT'')) = Inr resp \<and>
          error resp = None \<and> map symbol (stocks resp) = [js ''AAPL''])"
proof -
  have "list_all isWellFormed (normalizeSymbols example_engine [js ''aapl'', js ''AAPL'', js '' msft '']) \<and>
        stable_symbols example_engine (normalizeSymbols example_engine [js ''aapl'', js ''AAPL'', js '' msft '']) \<and>
        (\<forall>s \<in> set (normalizeSymbols example_engine [js ''aapl'', js ''AAPL'', js '' msft '']). \<forall>row.
           fetchQuote (client_with example_engine aapl_only) s = Inr (Some row) \<longrightarrow> symbol row = s)"
    using aapl_only_echo aapl_msft_wellFormed aapl_msft_stable by simp
  then show ?thesis
    using row_order[of "client_with example_engine aapl_only" "[js ''aapl'', js ''AAPL'', js '' msft '']"
        finnhub_aapl_only "Some (js ''AAPL,MSFT'')"]
    by (auto simp: normalize_examples client_with_fields handler_finnhub_aapl_only)
qed

text \<open>
  The claim as stated fails on the client when the provider answers under other symbols:
  here the two names are exchanged, and both rows come back in the exchanged order, with
  no \<open>error\<close>.
\<close>

theorem row_order_counterexample:
  "normalizeSymbols example_engine [js ''AAPL'', js ''MSFT''] = [js ''AAPL'', js ''MSFT''] \<and>
   fetchStocks (client_with example_engine names_swapped) [js ''AAPL'', js ''MSFT''] =
     Inr \<lparr>stocks =
            [\<lparr>symbol = js ''MSFT'', price = Fin 1234.5, change = Fin 1.5,
              changePercent = Fin 2.5, marketCap = None, volume = None,
              lastUpdated = Instant 0\<rparr>,
             \<lparr>symbol = js ''AAPL'', price = Fin 430.25, change = Fin 1.5,
              changePercent = Fin 2.5, marketCap = None, volume = None,
              lastUpdated = Instant 0\<rparr>],
          error = None\<rparr>"
  by (simp add: normalize_examples fetchStocks_names_swapped)

subsection \<open>C5: the numeric normalizer\<close>

text \<open>
  C5. The client's \<open>num\<close> gives absent for the text \<open>abc\<close>, as claimed; the server's \<open>num\<close>
  has no finiteness test and gives NaN for it, which is not absent.
\<close>

theorem num_server_not_absent:
  "num_server (Some (js ''abc'')) = Some NaN \<and> num (Some (js ''abc'')) = None"
  by (simp add: num_examples num_server_examples)

subsection \<open>C6: no partially populated record\<close>

text \<open>
  C6. The server's \<open>alphaVantageQuote\<close>, given a quote whose price is the text \<open>abc\<close>,
  returns a record whose price is NaN instead of no data: the NaN of the server's \<open>num\<close>
  passes the \<open>== null\<close> test.
\<close>

theorem alphaVantageQuote_NaN_price:
  "alphaVantageQuote av_price_abc (js ''IBM'') =
     Inr (Some \<lparr>symbol = js ''IBM'', price = NaN, change = Fin 1.5, changePercent = Fin 2.5,
                marketCap = None, volume = None, lastUpdated = Instant 0\<rparr>)"
  by (rule av_price_abc_quote)

subsection \<open>C7: mock rows within one minute\<close>

text \<open>
  C7. Two mock rows for the same symbol and index, built on the same engine at clock
  readings (in milliseconds) of the same minute bucket \<open>floor(epochSeconds / 60)\<close>, have the
  same price, change, percent change, capitalisation and volume; this holds for the
  client's \<open>makeMockRow\<close> and for the rows of the server's \<open>mockData\<close>.
\<close>

theorem mock_rows_same_minute:
  assumes "\<lfloor>real now1 / 1000 / 60\<rfloor> = \<lfloor>real now2 / 1000 / 60\<rfloor>"
  shows "price (makeMockRow eng sy i now1) = price (makeMockRow eng sy i now2) \<and>
         change (makeMockRow eng sy i now1) = change (makeMockRow eng sy i now2) \<and>
         changePercent (makeMockRow eng sy i now1) = changePercent (makeMockRow eng sy i now2) \<and>
         marketCap (makeMockRow eng sy i now1) = marketCap (makeMockRow eng sy i now2) \<and>
         volume (makeMockRow eng sy i now1) = volume (makeMockRow eng sy i now2) \<and>
         price (mockRow eng sy i now1) = price (mockRow eng sy i now2) \<and>
         change (mockRow eng sy i now1) = change (mockRow eng sy i now2) \<and>
         changePercent (mockRow eng sy i now1) = changePercent (mockRow eng sy i now2) \<and>
         marketCap (mockRow eng sy i now1) = marketCap (mockRow eng sy i now2) \<and>
         volume (mockRow eng sy i now1) = volume (mockRow eng sy i now2)"
proof -
  have t: "minuteBucket now1 = minuteBucket now2"
    using assms by (simp only: minuteBucket_seconds)
  have r: "makeMockRow_r eng sy i now1 = makeMockRow_r eng sy i now2"
    unfolding makeMockRow_r_def jitter_def t ..
  have r': "mockData_r eng i now1 = mockData_r eng i now2"
    unfolding mockData_r_def t ..
  show ?thesis
    by (simp add: makeMockRow_def mockRow_def Let_def r r')
qed

theorem mock_rows_same_minute_witness:
  "price (makeMockRow example_engine (js ''AAPL'') 0 120000) =
     price (makeMockRow example_engine (js ''AAPL'') 0 179999) \<and>
   volume (makeMockRow example_engine (js ''AAPL'') 0 120000) =
     volume (makeMockRow example_engine (js ''AAPL'') 0 179999) \<and>
   price (mockRow example_engine (js ''ZZZ'') 3 120000) =
     price (mockRow example_engine (js ''ZZZ'') 3 179999) \<and>
   volume (mockRow example_engine (js ''ZZZ'') 3 120000) =
     volume (mockRow example_engine (js ''ZZZ'') 3 179999)"
proof -
  have h: "\<lfloor>real 120000 / 1000 / 60\<rfloor> = \<lfloor>real 179999 / 1000 / 60\<rfloor>" by simp
  show ?thesis
    using mock_rows_same_minute[OF h, of example_engine "js ''AAPL''" 0]
      mock_rows_same_minute[OF h, of example_engine "js ''ZZZ''" 3]
    by simp
qed

subsection \<open>C8: how a mock row is derived\<close>

text \<open>
  C8, amended. All arithmetic is that of the doubles. On an engine whose sine lies in
  \<open>[-1, 1]\<close>, at an index below \<open>2^32\<close> and a clock reading below \<open>2^53\<close> milliseconds: in a row
  of the server's \<open>mockData\<close> the fraction \<open>r\<close> lies in \<open>[0, 1]\<close>, the percent change
  \<open>r * 6 - 3\<close> in \<open>[-3, 3]\<close>, price and change are derived and rounded as specified, and the
  volume is the rounded baseline volume scaled by \<open>0.8 + r * 0.4\<close>, at least 1. A row of
  the client's \<open>makeMockRow\<close> for a non-empty symbol is derived in the same way from a
  fraction in \<open>[0, 1]\<close>, except that its volume is the baseline volume scaled by
  \<open>0.85 + r * 0.3\<close>.
\<close>

theorem mock_rows_derivation:
  assumes "\<forall>x. \<bar>engine_sin eng x\<bar> \<le> 1" and "i < 2 ^ 32" and "now < 2 ^ 53"
  shows "between 0 1 (mockData_r eng i now) \<and>
         spec_mock_row (toDouble 0.8) (toDouble 0.4) (mockData_base s i) (mockData_r eng i now)
           (mockRow eng s i now) \<and>
         (sy \<noteq> [] \<longrightarrow>
            between 0 1 (makeMockRow_r eng sy i now) \<and>
            spec_mock_row (toDouble 0.85) (toDouble 0.3) (makeMockRow_b sy i)
              (makeMockRow_r eng sy i now) (makeMockRow eng sy i now))"
  using mockData_r_between[OF assms] makeMockRow_r_between[OF assms] mockRow_spec makeMockRow_spec
  by blast

theorem mock_rows_derivation_witness:
  "between 0 1 (mockData_r example_engine 0 0) \<and>
   spec_mock_row (toDouble 0.8) (toDouble 0.4) (mockData_base (js ''AAPL'') 0)
     (mockData_r example_engine 0 0) (mockRow example_engine (js ''AAPL'') 0 0) \<and>
   between 0 1 (makeMockRow_r example_engine (js ''AAPL'') 0 0) \<and>
   spec_mock_row (toDouble 0.85) (toDouble 0.3) (makeMockRow_b (js ''AAPL'') 0)
     (makeMockRow_r example_engine (js ''AAPL'') 0 0) (makeMockRow example_engine (js ''AAPL'') 0 0)"
  using mock_rows_derivation[of example_engine 0 0 "js ''AAPL''" "js ''AAPL''"] example_engine_sin
  by (simp add: js_def)

text \<open>
  The claim as stated fails on the client: for the symbol that consists of the character
  \<open>U+0000\<close>, at index 0 and clock reading 0, the fraction is 0 and the volume is 4250000,
  the baseline volume 5000000 scaled by 0.85; scaled by 0.8 it would be 4000000.
\<close>

theorem client_volume_counterexample:
  "makeMockRow_r example_engine [0] 0 0 = Fin 0 \<and>
   volume (makeMockRow example_engine [0] 0 0) = Some (Fin 4250000) \<and>
   \<not> spec_mock_row (toDouble 0.8) (toDouble 0.4) (makeMockRow_b [0] 0) (Fin 0)
       (makeMockRow example_engine [0] 0 0)"
proof -
  have r: "makeMockRow_r example_engine [0] 0 0 = Fin 0"
    by (simp add: makeMockRow_r_def jitter_def jadd_def jmul_def jsub_def jneg_def
        charCodeAt0_def minuteBucket_def Math_sin_def Math_floor_def toDouble_0 Let_def)
  have "toDouble 5000000 = Fin 5000000" using toDouble_of_nat[of 5000000] by simp
  then have b: "preset_vol (makeMockRow_b [0] 0) = Fin 5000000"
    by (simp add: makeMockRow_b_def MOCK_PRESETS_def js_def cu_def jadd_def jmul_def toDouble_0)
  have m85: "jmul (Fin 5000000) (Fin (7656119366529843 / 9007199254740992)) = Fin 4250000"
    by (simp add: jmul_def toDouble_binade[where e = 22] round_half_even_def)
  have m80: "jmul (Fin 5000000) (Fin (3602879701896397 / 4503599627370496)) = Fin 4000000"
    by (simp add: jmul_def toDouble_binade[where e = 21] round_half_even_def)
  have v: "volume (makeMockRow example_engine [0] 0 0) = Some (Fin 4250000)"
    by (simp add: makeMockRow_def r b Let_def literal_doubles jmul_def[of "Fin 0"] jadd_def
        toDouble_0 m85 Math_round_def Math_max_def)
  have "\<not> spec_mock_row (toDouble 0.8) (toDouble 0.4) (makeMockRow_b [0] 0) (Fin 0)
       (makeMockRow example_engine [0] 0 0)"
    by (simp add: spec_mock_row_def v b Let_def literal_doubles jmul_def[of "Fin 0"] jadd_def
        toDouble_0 m80 Math_round_def Math_max_def)
  with r v show ?thesis by simp
qed

subsection \<open>C9: the default symbols\<close>

text \<open>
  C9. The server substitutes the default symbols only for a missing \<open>symbols\<close> parameter.
  For the empty string, whose normalisation is the empty list, \<open>handler\<close> answers with no
  row at all, whatever the providers do.
\<close>

theorem handler_empty_query_no_defaults:
  "uniqueSymbols (server_engine env) (Some (js '''')) = [] \<and>
   handler env (Some (js '''')) =
     Inr \<lparr>stocks = [], error = Some ''Using mock data (provider unavailable or rate-limited).''\<rparr>"
  by (simp add: uniqueSymbols_examples handler_empty_query)

subsection \<open>C10: the capitalisation on the client\<close>

text \<open>
  C10. A row that the client's \<open>fetchQuote\<close> returns has no \<open>marketCap\<close>, and every row of
  a \<open>fetchStocks\<close> response that has a \<open>marketCap\<close> is a row of \<open>makeMockRow\<close>.
\<close>

theorem client_marketCap:
  "(fetchQuote env sy = Inr (Some row) \<longrightarrow> marketCap row = None) \<and>
   (fetchStocks env inputSymbols = Inr resp \<and> row' \<in> set (stocks resp) \<and>
      marketCap row' \<noteq> None \<longrightarrow>
      (\<exists>s i. row' = makeMockRow (client_engine env) s i (mock_clock env i)))"
proof (intro conjI impI)
  assume "fetchQuote env sy = Inr (Some row)"
  then show "marketCap row = None"
    by (simp add: fetchQuote_eq client_row_marketCap split: if_splits)
next
  assume h: "fetchStocks env inputSymbols = Inr resp \<and> row' \<in> set (stocks resp) \<and>
      marketCap row' \<noteq> None"
  then have "(\<exists>s. client_row env s = Some row') \<or>
             (\<exists>s i. row' = makeMockRow (client_engine env) s i (mock_clock env i))"
    by (intro fetchStocks_rows_origin[of env inputSymbols resp row']) simp_all
  moreover have "\<not> (\<exists>s. client_row env s = Some row')"
    using h client_row_marketCap[of env _ row'] by auto
  ultimately show "\<exists>s i. row' = makeMockRow (client_engine env) s i (mock_clock env i)"
    by simp
qed

theorem client_marketCap_witness:
  "fetchQuote (client_with example_engine aapl_only) (js ''AAPL'') =
     Inr (Some \<lparr>symbol = js ''AAPL'', price = Fin 1234.5, change = Fin 1.5,
              changePercent = Fin 2.5, marketCap = None, volume = None,
              lastUpdated = Instant 0\<rparr>) \<and>
   marketCap (makeMockRow example_engine (js ''MSFT'') 0 0) \<noteq> None \<and>
   (\<exists>s i. makeMockRow example_engine (js ''MSFT'') 0 0 =
          makeMockRow example_engine s i (mock_clock (client_with example_engine aapl_only) i))"
  using client_marketCap[of "client_with example_engine aapl_only" "js ''AAPL''"
      "\<lparr>symbol = js ''AAPL'', price = Fin 1234.5, change = Fin 1.5,
              changePercent = Fin 2.5, marketCap = None, volume = None,
              lastUpdated = Instant 0\<rparr>"
      "[js ''aapl'', js ''AAPL'', js '' msft '']"
      "\<lparr>stocks =
            [\<lparr>symbol = js ''AAPL'', price = Fin 1234.5, change = Fin 1.5,
              changePercent = Fin 2.5, marketCap = None, volume = None,
              lastUpdated = Instant 0\<rparr>,
             makeMockRow example_engine (js ''MSFT'') 0 0],
          error = Some ''Some symbols could not be refreshed (likely rate limit). Mock data shown for those entries.''\<rparr>"
      "makeMockRow example_engine (js ''MSFT'') 0 0"]
  by (simp add: fetchQuote_eq js_wellFormed_examples aapl_only_rows fetchStocks_aapl_only
      marketCap_makeMockRow client_with_fields)

end
